theory Spec2Isabelle
  imports Main "HOL-Library.Word" "HOL-Library.AList" "HOL-Library.Sublist"
begin

section \<open>The upload handler of the case portal (utils/file\_handler.py)\<close>

text \<open>
  The module validates an uploaded file by its extension, stores it under a generated
  name in a per-case directory, fingerprints it and reports its metadata; it also
  finds, deletes and lists stored files. Its functions are embedded here one by one.
  What the module takes from outside (werkzeug, hashlib, mimetypes, uuid, the clock and
  the operating system) enters the model as explicit arguments.
\<close>

subsection \<open>Python values\<close>

type_synonym bytes = "8 word list"

text \<open>The exceptions that the module's statements can raise.\<close>

datatype exn = IndexError | OSError string

text \<open>\<open>str(e)\<close> of a caught exception, as interpolated into the error messages.\<close>

fun str_exn :: "exn \<Rightarrow> string" where
  "str_exn IndexError = ''list index out of range''"
| "str_exn (OSError msg) = msg"

text \<open>\<open>xs[i]\<close> for a non-negative index: out of range raises \<open>IndexError\<close>.\<close>

definition py_index :: "'a list \<Rightarrow> nat \<Rightarrow> exn + 'a" where
  "py_index xs i = (if i < length xs then Inr (xs ! i) else Inl IndexError)"

text \<open>\<open>a or b\<close> on optional strings: \<open>None\<close> and the empty string are falsy.\<close>

fun py_or :: "string option \<Rightarrow> string option \<Rightarrow> string option" where
  "py_or None b = b"
| "py_or (Some s) b = (if s = [] then b else Some s)"

text \<open>\<open>str.lower()\<close>, on the ASCII letters.\<close>

definition lower_char :: "char \<Rightarrow> char" where
  "lower_char c =
     (case map_of (zip ''ABCDEFGHIJKLMNOPQRSTUVWXYZ'' ''abcdefghijklmnopqrstuvwxyz'') c of
        Some d \<Rightarrow> d
      | None \<Rightarrow> c)"

definition lower :: "string \<Rightarrow> string" where
  "lower s = map lower_char s"

text \<open>
  \<open>s.rsplit('.', 1)\<close>: the string itself when it has no dot, otherwise what stands
  before the last dot and what stands after it.
\<close>

definition rsplit_dot :: "string \<Rightarrow> string list" where
  "rsplit_dot s =
     (if CHR ''.'' \<in> set s
      then [rev (tl (dropWhile (\<lambda>c. c \<noteq> CHR ''.'') (rev s))),
            rev (takeWhile (\<lambda>c. c \<noteq> CHR ''.'') (rev s))]
      else [s])"

text \<open>\<open>sep.join(parts)\<close>.\<close>

fun join :: "string \<Rightarrow> string list \<Rightarrow> string" where
  "join sep [] = []"
| "join sep [x] = x"
| "join sep (x # y # ys) = x @ sep @ join sep (y # ys)"

text \<open>Decimal rendering of a natural number, \<open>str(n)\<close>.\<close>

fun show_nat :: "nat \<Rightarrow> string" where
  "show_nat n =
     (if n < 10 then [''0123456789'' ! n]
      else show_nat (n div 10) @ [''0123456789'' ! (n mod 10)])"

declare show_nat.simps [simp del]

subsection \<open>Module constants\<close>

text \<open>The dictionary \<open>ALLOWED_EXTENSIONS\<close>, in insertion order.\<close>

definition ALLOWED_EXTENSIONS :: "(string \<times> string) list" where
  "ALLOWED_EXTENSIONS =
     [(''pdf'', ''application/pdf''),
      (''doc'', ''application/msword''),
      (''docx'', ''application/vnd.openxmlformats-officedocument.wordprocessingml.document''),
      (''jpg'', ''image/jpeg''),
      (''jpeg'', ''image/jpeg''),
      (''png'', ''image/png''),
      (''txt'', ''text/plain'')]"

definition MAX_FILE_SIZE :: nat where
  "MAX_FILE_SIZE = 50 * 1024 * 1024"

subsection \<open>allowed\_file\<close>

text \<open>
  \<open>'.' in filename and filename.rsplit('.', 1)[1].lower() in ALLOWED_EXTENSIONS\<close>.
  The conjunction is short-circuit, so the index is only taken when there is a dot.
\<close>

definition allowed_file :: "string \<Rightarrow> bool" where
  "allowed_file filename =
     (CHR ''.'' \<in> set filename \<and>
      (case py_index (rsplit_dot filename) 1 of
         Inr ext \<Rightarrow> lower ext \<in> set (map fst ALLOWED_EXTENSIONS)
       | Inl e \<Rightarrow> False))"

text \<open>
  The specification's wording of the same check: the filename has an extension (the text
  after its last dot) and that extension is, without regard to the case of its letters,
  one of pdf, doc, docx, jpg, jpeg, png, txt. Two strings are equal without regard to
  case when they have the same length and, position by position, the same character or
  the capital and the small form of the same letter.
\<close>

definition spec_allow_list :: "string list" where
  "spec_allow_list = [''pdf'', ''doc'', ''docx'', ''jpg'', ''jpeg'', ''png'', ''txt'']"

definition has_extension :: "string \<Rightarrow> string \<Rightarrow> bool" where
  "has_extension filename ext =
     (\<exists>stem. filename = stem @ ''.'' @ ext \<and> CHR ''.'' \<notin> set ext)"

definition capitals :: string where
  "capitals = ''ABCDEFGHIJKLMNOPQRSTUVWXYZ''"

definition small_letters :: string where
  "small_letters = ''abcdefghijklmnopqrstuvwxyz''"

definition same_letter :: "char \<Rightarrow> char \<Rightarrow> bool" where
  "same_letter a b =
     (a = b \<or> (a, b) \<in> set (zip capitals small_letters) \<or> (b, a) \<in> set (zip capitals small_letters))"

definition equal_ignoring_case :: "string \<Rightarrow> string \<Rightarrow> bool" where
  "equal_ignoring_case s t = list_all2 same_letter s t"

definition spec_validate :: "string \<Rightarrow> bool" where
  "spec_validate filename =
     (\<exists>ext. has_extension filename ext \<and>
        (\<exists>allowed \<in> set spec_allow_list. equal_ignoring_case ext allowed))"

subsection \<open>What the module imports\<close>

text \<open>
  Three library functions are pure and enter as a record of functions:
  \<open>werkzeug.utils.secure_filename\<close>, the digest that a \<open>hashlib.sha256\<close> object
  reports for the bytes it was fed, and \<open>mimetypes.guess_type(name)[0]\<close>.
\<close>

record libs =
  secure_filename :: "string \<Rightarrow> string"
  sha256_hexdigest :: "bytes \<Rightarrow> string"
  guess_type :: "string \<Rightarrow> string option"

text \<open>
  The rest is what the random source, the clock and the operating system answer during
  one call: the string of \<open>uuid.uuid4()\<close>, the time stamp, and whether creating the
  directory, saving the stream or removing a file meets an error of the operating system.
  A save that fails either creates nothing, or leaves a file that holds the first \<open>k\<close>
  bytes of the stream. Reading back a file that was just written is taken to succeed.
\<close>

datatype save_fault = SaveOK | SaveFails string "nat option"

record world =
  uuid4_str :: string
  now_iso :: string
  makedirs_err :: "string option"
  save_fault :: save_fault
  remove_err :: "string option"

text \<open>
  The \<open>FileStorage\<close> object of an upload: its claimed filename and the bytes its stream
  still holds. It is falsy when its filename is empty; the argument \<open>file\<close> may also be
  \<open>None\<close>.
\<close>

record file_storage =
  filename :: string
  stream :: bytes

fun truthy :: "file_storage option \<Rightarrow> bool" where
  "truthy None = False"
| "truthy (Some f) = (filename f \<noteq> [])"

subsection \<open>The upload folder\<close>

text \<open>
  Below \<open>UPLOAD_FOLDER\<close> there is one directory per case, named by the case identifier.
  A directory is the list of its entries in the order \<open>os.listdir\<close> reports them,
  each a regular file with its content or a subdirectory. A path
  \<open>os.path.join(case_upload_dir, name)\<close> is the pair of the case and the name.
  A file that is created is entered at the end of the list; the operating system may
  report another order, and no property below depends on where a new file stands.
\<close>

datatype node = File bytes | Dir

type_synonym directory = "(string \<times> node) list"

type_synonym fs = "string \<Rightarrow> directory option"

type_synonym path = "string \<times> string"

definition lookup :: "fs \<Rightarrow> path \<Rightarrow> node option" where
  "lookup fs p = (case fs (fst p) of None \<Rightarrow> None | Some dir \<Rightarrow> map_of dir (snd p))"

text \<open>\<open>os.path.exists(path)\<close>.\<close>

definition path_exists :: "fs \<Rightarrow> path \<Rightarrow> bool" where
  "path_exists fs p = (lookup fs p \<noteq> None)"

text \<open>\<open>os.makedirs(d, exist_ok=True)\<close>: nothing to do when the directory is there.\<close>

definition os_makedirs :: "world \<Rightarrow> fs \<Rightarrow> string \<Rightarrow> exn + fs" where
  "os_makedirs orc fs d =
     (case fs d of
        Some dir \<Rightarrow> Inr fs
      | None \<Rightarrow>
          (case makedirs_err orc of
             Some msg \<Rightarrow> Inl (OSError msg)
           | None \<Rightarrow> Inr (fs(d \<mapsto> []))))"

text \<open>
  \<open>file.save(path)\<close>: opens the destination for writing, which truncates a regular file
  of that name and fails on a subdirectory, then copies the stream. The file system is
  returned in both outcomes, since a failed copy leaves what was written.
\<close>

definition file_save :: "world \<Rightarrow> fs \<Rightarrow> file_storage \<Rightarrow> path \<Rightarrow> exn option \<times> fs" where
  "file_save orc fs f p =
     (case fs (fst p) of
        None \<Rightarrow> (Some (OSError ''No such file or directory''), fs)
      | Some dir \<Rightarrow>
          (case map_of dir (snd p) of
             Some Dir \<Rightarrow> (Some (OSError ''Is a directory''), fs)
           | _ \<Rightarrow>
               (case save_fault orc of
                  SaveOK \<Rightarrow>
                    (None, fs(fst p \<mapsto> AList.update (snd p) (File (stream f)) dir))
                | SaveFails msg None \<Rightarrow>
                    (Some (OSError msg), fs)
                | SaveFails msg (Some k) \<Rightarrow>
                    (Some (OSError msg),
                     fs(fst p \<mapsto> AList.update (snd p) (File (take k (stream f))) dir)))))"

text \<open>\<open>os.remove(path)\<close>: removes a regular file; a failure changes nothing.\<close>

definition os_remove :: "world \<Rightarrow> fs \<Rightarrow> path \<Rightarrow> exn + fs" where
  "os_remove orc fs p =
     (case fs (fst p) of
        None \<Rightarrow> Inl (OSError ''No such file or directory'')
      | Some dir \<Rightarrow>
          (case map_of dir (snd p) of
             None \<Rightarrow> Inl (OSError ''No such file or directory'')
           | Some Dir \<Rightarrow> Inl (OSError ''Is a directory'')
           | Some (File content) \<Rightarrow>
               (case remove_err orc of
                  Some msg \<Rightarrow> Inl (OSError msg)
                | None \<Rightarrow> Inr (fs(fst p \<mapsto> AList.delete (snd p) dir)))))"

text \<open>\<open>open(path, "rb")\<close> followed by reads: the content of a regular file.\<close>

definition read_file :: "fs \<Rightarrow> path \<Rightarrow> exn + bytes" where
  "read_file fs p =
     (case lookup fs p of
        Some (File content) \<Rightarrow> Inr content
      | Some Dir \<Rightarrow> Inl (OSError ''Is a directory'')
      | None \<Rightarrow> Inl (OSError ''No such file or directory''))"

subsection \<open>get\_file\_hash and get\_file\_size\<close>

text \<open>
  The loop \<open>for byte_block in iter(lambda: f.read(4096), b""): sha256_hash.update(byte_block)\<close>.
  The hash object is represented by the bytes fed to it so far (\<open>update\<close> appends),
  and \<open>rest\<close> is what the file handle has not yet delivered.
\<close>

function hash_blocks :: "bytes \<Rightarrow> bytes \<Rightarrow> bytes" where
  "hash_blocks fed rest =
     (let byte_block = take 4096 rest
      in if byte_block = [] then fed
         else hash_blocks (fed @ byte_block) (drop 4096 rest))"
  by pat_completeness auto
termination
  by (relation "measure (\<lambda>(fed, rest). length rest)") auto

declare hash_blocks.simps [simp del]

definition get_file_hash :: "libs \<Rightarrow> fs \<Rightarrow> path \<Rightarrow> exn + string" where
  "get_file_hash L fs file_path =
     (case read_file fs file_path of
        Inl e \<Rightarrow> Inl e
      | Inr content \<Rightarrow> Inr (sha256_hexdigest L (hash_blocks [] content)))"

text \<open>\<open>os.path.getsize(file_path)\<close>; every call site passes a regular file.\<close>

definition get_file_size :: "fs \<Rightarrow> path \<Rightarrow> exn + nat" where
  "get_file_size fs file_path =
     (case read_file fs file_path of
        Inl e \<Rightarrow> Inl e
      | Inr content \<Rightarrow> Inr (length content))"

subsection \<open>save\_uploaded\_file\<close>

text \<open>
  The metadata dictionary of a successful upload. \<open>file_size_mb\<close>, a rounded
  floating-point number, is left out.
\<close>

record metadata =
  document_id :: string
  original_filename :: string
  stored_filename :: string
  file_path :: path
  file_size :: nat
  file_hash :: string
  file_type :: string
  mime_type :: "string option"
  case_id :: string
  uploaded_by :: string
  uploaded_at :: string
  ocr_status :: string
  tags :: "string list"
  version :: nat

text \<open>
  The returned dictionary: \<open>Success\<close> is the metadata with \<open>'success': True\<close>,
  \<open>Failure msg\<close> is \<open>{'success': False, 'error': msg}\<close>.
\<close>

datatype result = Success metadata | Failure string

text \<open>
  The four failure dictionaries of the function. \<open>MAX_FILE_SIZE / (1024*1024)\<close> is a
  float; \<open>MAX_FILE_SIZE\<close> is an exact multiple of \<open>1024*1024\<close>, so the quotient is a
  whole number, which Python prints with the fraction \<open>.0\<close>.
\<close>

definition NoFile :: result where
  "NoFile = Failure ''No file provided''"

definition UnsupportedType :: result where
  "UnsupportedType =
     Failure (''File type not allowed. Allowed types: '' @ join '', '' (map fst ALLOWED_EXTENSIONS))"

definition WriteFailure :: "exn \<Rightarrow> result" where
  "WriteFailure e = Failure (''Failed to save file: '' @ str_exn e)"

definition max_size_mb :: string where
  "max_size_mb = show_nat (MAX_FILE_SIZE div (1024 * 1024)) @ ''.0''"

definition FileTooLarge :: result where
  "FileTooLarge = Failure (''File too large. Maximum size: '' @ max_size_mb @ ''MB'')"

text \<open>The stored filename \<open>f"{unique_id}.{file_ext}"\<close>.\<close>

definition stored_name :: "string \<Rightarrow> string \<Rightarrow> string" where
  "stored_name unique_id file_ext = unique_id @ ''.'' @ file_ext"

definition save_uploaded_file ::
  "libs \<Rightarrow> world \<Rightarrow> fs \<Rightarrow> file_storage option \<Rightarrow> string \<Rightarrow> string \<Rightarrow> (exn + result) \<times> fs" where
  "save_uploaded_file L orc fs file case_id' uploaded_by' =
     (case file of
        None \<Rightarrow> (Inr NoFile, fs)
      | Some f \<Rightarrow>
          if \<not> truthy (Some f) then (Inr NoFile, fs)
          else if \<not> allowed_file (filename f) then (Inr UnsupportedType, fs)
          else
            (let original = secure_filename L (filename f) in
             (case py_index (rsplit_dot original) 1 of
                Inl e \<Rightarrow> (Inl e, fs)
              | Inr ext \<Rightarrow>
                  (let file_ext = lower ext;
                       unique_id = uuid4_str orc;
                       stored = stored_name unique_id file_ext
                   in
                   (case os_makedirs orc fs case_id' of
                      Inl e \<Rightarrow> (Inl e, fs)
                    | Inr fs1 \<Rightarrow>
                        (let target = (case_id', stored) in
                         (case file_save orc fs1 f target of
                            (Some e, fs2) \<Rightarrow> (Inr (WriteFailure e), fs2)
                          | (None, fs2) \<Rightarrow>
                              (case get_file_size fs2 target of
                                 Inl e \<Rightarrow> (Inl e, fs2)
                               | Inr size' \<Rightarrow>
                                   (case get_file_hash L fs2 target of
                                      Inl e \<Rightarrow> (Inl e, fs2)
                                    | Inr hash' \<Rightarrow>
                                        if size' > MAX_FILE_SIZE then
                                          (case os_remove orc fs2 target of
                                             Inl e \<Rightarrow> (Inl e, fs2)
                                           | Inr fs3 \<Rightarrow> (Inr FileTooLarge, fs3))
                                        else
                                          (Inr (Success
                                             \<lparr>document_id = unique_id,
                                              original_filename = original,
                                              stored_filename = stored,
                                              file_path = target,
                                              file_size = size',
                                              file_hash = hash',
                                              file_type = file_ext,
                                              mime_type =
                                                py_or (guess_type L original)
                                                      (map_of ALLOWED_EXTENSIONS file_ext),
                                              case_id = case_id',
                                              uploaded_by = uploaded_by',
                                              uploaded_at = now_iso orc,
                                              ocr_status = ''pending'',
                                              tags = [],
                                              version = 1\<rparr>), fs2))))))))))"

subsection \<open>get\_file\_path, delete\_file, list\_uploaded\_files\<close>

text \<open>
  The loop over \<open>os.listdir\<close> that returns at the first name for which
  \<open>filename.startswith(document_id)\<close> holds.
\<close>

fun scan :: "string \<Rightarrow> string list \<Rightarrow> string option" where
  "scan document_id' [] = None"
| "scan document_id' (name # names) =
     (if prefix document_id' name then Some name else scan document_id' names)"

definition get_file_path :: "fs \<Rightarrow> string \<Rightarrow> string \<Rightarrow> path option" where
  "get_file_path fs document_id' case_id' =
     (case fs case_id' of
        None \<Rightarrow> None
      | Some dir \<Rightarrow>
          (case scan document_id' (map fst dir) of
             Some name \<Rightarrow> Some (case_id', name)
           | None \<Rightarrow> None))"

text \<open>
  The two dictionaries of \<open>delete_file\<close>: \<open>Deleted msg\<close> is
  \<open>{'success': True, 'message': msg}\<close>, \<open>NotDeleted msg\<close> is
  \<open>{'success': False, 'error': msg}\<close>.
\<close>

datatype delete_result = Deleted string | NotDeleted string

definition NotFound :: delete_result where
  "NotFound = NotDeleted ''File not found''"

definition DeleteFailure :: "exn \<Rightarrow> delete_result" where
  "DeleteFailure e = NotDeleted (''Failed to delete file: '' @ str_exn e)"

definition delete_file :: "world \<Rightarrow> fs \<Rightarrow> string \<Rightarrow> string \<Rightarrow> delete_result \<times> fs" where
  "delete_file orc fs document_id' case_id' =
     (case get_file_path fs document_id' case_id' of
        None \<Rightarrow> (NotFound, fs)
      | Some target \<Rightarrow>
          if path_exists fs target then
            (case os_remove orc fs target of
               Inr fs' \<Rightarrow> (Deleted ''File deleted'', fs')
             | Inl e \<Rightarrow> (DeleteFailure e, fs))
          else (NotFound, fs))"

text \<open>
  One dictionary per regular file of the case directory: its name, its path and its
  size (the modification time is left out).
\<close>

record listing =
  entry_name :: string
  entry_path :: path
  entry_size :: nat

fun list_entries :: "string \<Rightarrow> directory \<Rightarrow> listing list" where
  "list_entries c [] = []"
| "list_entries c ((name, File content) # rest) =
     \<lparr>entry_name = name, entry_path = (c, name), entry_size = length content\<rparr>
       # list_entries c rest"
| "list_entries c ((name, Dir) # rest) = list_entries c rest"

definition list_uploaded_files :: "fs \<Rightarrow> string \<Rightarrow> listing list" where
  "list_uploaded_files fs case_id' =
     (case fs case_id' of
        None \<Rightarrow> []
      | Some dir \<Rightarrow> list_entries case_id' dir)"


subsection \<open>The names that uploads issue\<close>

text \<open>
  \<open>str(uuid.uuid4())\<close> has 36 characters, so a name stored by \<open>save_uploaded_file\<close>
  has its identifier in the first 36 characters and a dot after them. A case directory
  is \<open>issued\<close> when all its names are of this form and no two carry the same identifier.
\<close>

definition identifier_of :: "string \<Rightarrow> string" where
  "identifier_of name = take 36 name"

definition issued_name :: "string \<Rightarrow> bool" where
  "issued_name name = (36 < length name \<and> name ! 36 = CHR ''.'')"

definition issued :: "directory \<Rightarrow> bool" where
  "issued dir =
     (list_all issued_name (map fst dir) \<and> distinct (map identifier_of (map fst dir)))"

subsection \<open>Instances for evaluation\<close>

text \<open>
  \<open>werkzeug.utils.secure_filename\<close> on a POSIX system, for ASCII filenames: characters
  outside ASCII are dropped, the path separator becomes a space, the words between
  white space are joined by underscores, every character outside \<open>[A-Za-z0-9_.-]\<close> is
  removed, and dots and underscores are stripped from both ends. (The Unicode
  decomposition that precedes the ASCII encoding is not modelled.)
\<close>

definition py_whitespace :: string where
  "py_whitespace =
     [CHR 0x09, CHR 0x0A, CHR 0x0B, CHR 0x0C, CHR 0x0D, CHR 0x1C, CHR 0x1D, CHR 0x1E, CHR 0x1F,
      CHR '' '']"

text \<open>\<open>s.split()\<close>; \<open>word\<close> holds the current word in reverse.\<close>

fun split_ws :: "string \<Rightarrow> string \<Rightarrow> string list" where
  "split_ws word [] = (if word = [] then [] else [rev word])"
| "split_ws word (c # cs) =
     (if c \<in> set py_whitespace
      then (if word = [] then split_ws [] cs else rev word # split_ws [] cs)
      else split_ws (c # word) cs)"

definition safe_chars :: string where
  "safe_chars = ''ABCDEFGHIJKLMNOPQRSTUVWXYZabcdefghijklmnopqrstuvwxyz0123456789_.-''"

text \<open>\<open>s.strip(chars)\<close>.\<close>

definition strip_chars :: "string \<Rightarrow> string \<Rightarrow> string" where
  "strip_chars chars s =
     rev (dropWhile (\<lambda>c. c \<in> set chars) (rev (dropWhile (\<lambda>c. c \<in> set chars) s)))"

definition werkzeug_secure_filename :: "string \<Rightarrow> string" where
  "werkzeug_secure_filename name =
     (let ascii = filter (\<lambda>c. \<not> digit7 c) name;
          spaced = map (\<lambda>c. if c = CHR ''/'' then CHR '' '' else c) ascii;
          joined = join ''_'' (split_ws [] spaced);
          kept = filter (\<lambda>c. c \<in> set safe_chars) joined
      in strip_chars ''._'' kept)"

text \<open>
  The theorems below hold for every digest and every guess of the media type. Where a
  concrete call is evaluated, the digest is the hexadecimal rendering of the bytes and
  the guess is a small table on the extension.
\<close>

definition hex_byte :: "8 word \<Rightarrow> string" where
  "hex_byte b = [''0123456789abcdef'' ! (unat b div 16), ''0123456789abcdef'' ! (unat b mod 16)]"

definition hex_digest :: "bytes \<Rightarrow> string" where
  "hex_digest bs = concat (map hex_byte bs)"

definition table_guess_type :: "string \<Rightarrow> string option" where
  "table_guess_type name =
     (case py_index (rsplit_dot name) 1 of
        Inl e \<Rightarrow> None
      | Inr ext \<Rightarrow>
          map_of [(''txt'', ''text/plain''), (''pdf'', ''application/pdf''),
                  (''png'', ''image/png''), (''html'', ''text/html'')] (lower ext))"

definition posix_libs :: libs where
  "posix_libs =
     \<lparr>secure_filename = werkzeug_secure_filename,
      sha256_hexdigest = hex_digest,
      guess_type = table_guess_type\<rparr>"

text \<open>A call during which nothing fails, with the given identifier drawn.\<close>

definition calm :: "string \<Rightarrow> world" where
  "calm u =
     \<lparr>uuid4_str = u, now_iso = ''2025-10-14T15:42:00'', makedirs_err = None,
      save_fault = SaveOK, remove_err = None\<rparr>"

text \<open>The entries of a case directory; none when the directory does not exist.\<close>

definition entries :: "fs \<Rightarrow> string \<Rightarrow> directory" where
  "entries fs c = (case fs c of None \<Rightarrow> [] | Some dir \<Rightarrow> dir)"


section \<open>Properties\<close>

subsection \<open>Splitting at the last dot\<close>

lemma rsplit_dot_no_dot:
  "CHR ''.'' \<notin> set s \<Longrightarrow> rsplit_dot s = [s]"
  by (simp add: rsplit_dot_def)

lemma rsplit_dot_append:
  assumes "CHR ''.'' \<notin> set ext"
  shows "rsplit_dot (stem @ ''.'' @ ext) = [stem, ext]"
proof -
  from assms have nd: "\<And>c. c \<in> set (rev ext) \<Longrightarrow> c \<noteq> CHR ''.''"
    by auto
  have tw: "takeWhile (\<lambda>c. c \<noteq> CHR ''.'') (rev ext @ CHR ''.'' # rev stem) = rev ext"
    using takeWhile_append2 [of "rev ext" "\<lambda>c. c \<noteq> CHR ''.''" "CHR ''.'' # rev stem"] nd
    by simp
  have dw: "dropWhile (\<lambda>c. c \<noteq> CHR ''.'') (rev ext @ CHR ''.'' # rev stem) = CHR ''.'' # rev stem"
    using dropWhile_append2 [of "rev ext" "\<lambda>c. c \<noteq> CHR ''.''" "CHR ''.'' # rev stem"] nd
    by simp
  show ?thesis
    using tw dw by (simp add: rsplit_dot_def)
qed

lemma rsplit_dot_decompose:
  assumes "CHR ''.'' \<in> set s"
  shows "\<exists>stem ext. s = stem @ ''.'' @ ext \<and> CHR ''.'' \<notin> set ext \<and> rsplit_dot s = [stem, ext]"
proof -
  from assms have "CHR ''.'' \<in> set (rev s)"
    by simp
  then obtain ys zs where split: "rev s = ys @ CHR ''.'' # zs" and free: "CHR ''.'' \<notin> set ys"
    by (meson split_list_first)
  have "s = rev (rev s)"
    by simp
  also have "\<dots> = rev zs @ ''.'' @ rev ys"
    by (simp only: split) simp
  finally have s: "s = rev zs @ ''.'' @ rev ys" .
  from free have "CHR ''.'' \<notin> set (rev ys)"
    by simp
  with s rsplit_dot_append [of "rev ys" "rev zs"] show ?thesis
    by metis
qed

lemma has_extension_unique:
  "has_extension s e1 \<Longrightarrow> has_extension s e2 \<Longrightarrow> e1 = e2"
  by (metis has_extension_def rsplit_dot_append list.inject)

lemma spec_allow_list_keys: "map fst ALLOWED_EXTENSIONS = spec_allow_list"
  by (simp add: ALLOWED_EXTENSIONS_def spec_allow_list_def)

subsection \<open>C2: the extension check\<close>

text \<open>
  \<open>lower\<close> turns a capital into its small letter and leaves every other character;
  so a string lower-cased is on the allow-list exactly when it equals an entry of the
  list without regard to case.
\<close>

lemma lower_capitals:
  "lower ''PDF'' = ''pdf'' \<and> lower ''JpEg'' = ''jpeg'' \<and> lower ''a-Z_9'' = ''a-z_9''"
  by (simp add: lower_def lower_char_def)

lemma lower_char_table:
  "lower_char c = (case map_of (zip capitals small_letters) c of Some d \<Rightarrow> d | None \<Rightarrow> c)"
  by (simp only: lower_char_def capitals_def small_letters_def)

lemma capitals_facts:
  "distinct capitals" "length capitals = length small_letters"
  by (simp_all add: capitals_def small_letters_def)

lemma small_not_capital: "d \<in> set small_letters \<Longrightarrow> d \<notin> set capitals"
  by (auto simp: capitals_def small_letters_def)

lemma same_letter_lower_char: "same_letter c (lower_char c)"
proof (cases "map_of (zip capitals small_letters) c")
  case None
  then have "lower_char c = c"
    by (simp only: lower_char_table option.case)
  then show ?thesis
    by (simp only: same_letter_def) simp
next
  case (Some d)
  then have "(c, d) \<in> set (zip capitals small_letters)"
    by (rule map_of_SomeD)
  moreover from Some have "lower_char c = d"
    by (simp only: lower_char_table option.case)
  ultimately show ?thesis
    by (simp only: same_letter_def) simp
qed

lemma equal_ignoring_case_lower: "equal_ignoring_case s (lower s)"
  unfolding equal_ignoring_case_def lower_def
  by (induction s) (simp_all add: same_letter_lower_char)

lemma lower_char_of_same_letter:
  assumes same: "same_letter c d" and small: "d \<in> set small_letters"
  shows "lower_char c = d"
proof -
  have keys: "map fst (zip capitals small_letters) = capitals"
    using capitals_facts(2) by (rule map_fst_zip)
  from small have nc: "d \<notin> set capitals"
    by (rule small_not_capital)
  from same consider (eq) "c = d" | (pair) "(c, d) \<in> set (zip capitals small_letters)"
    | (riap) "(d, c) \<in> set (zip capitals small_letters)"
    unfolding same_letter_def by blast
  then show ?thesis
  proof cases
    case eq
    from nc keys have "map_of (zip capitals small_letters) d = None"
      by (simp add: map_of_eq_None_iff del: map_fst_zip) (metis image_set)
    with eq show ?thesis
      by (simp only: lower_char_table option.case)
  next
    case pair
    from capitals_facts(1) keys have dk: "distinct (map fst (zip capitals small_letters))"
      by simp
    from dk pair have "map_of (zip capitals small_letters) c = Some d"
      by (rule map_of_is_SomeI)
    then show ?thesis
      by (simp only: lower_char_table option.case)
  next
    case riap
    then have "d \<in> set capitals"
      by (rule set_zip_leftD)
    with nc show ?thesis
      by simp
  qed
qed

lemma lower_of_equal_ignoring_case:
  assumes "equal_ignoring_case s t" and "set t \<subseteq> set small_letters"
  shows "lower s = t"
  using assms unfolding equal_ignoring_case_def lower_def
  by (induction s t rule: list_all2_induct) (simp_all add: lower_char_of_same_letter)

lemma spec_allow_list_small:
  "allowed \<in> set spec_allow_list \<Longrightarrow> set allowed \<subseteq> set small_letters"
  by (auto simp: spec_allow_list_def small_letters_def)

lemma lower_on_allow_list:
  "lower ext \<in> set spec_allow_list \<longleftrightarrow>
     (\<exists>allowed \<in> set spec_allow_list. equal_ignoring_case ext allowed)"
proof
  assume "lower ext \<in> set spec_allow_list"
  with equal_ignoring_case_lower [of ext] show
    "\<exists>allowed \<in> set spec_allow_list. equal_ignoring_case ext allowed"
    by blast
next
  assume "\<exists>allowed \<in> set spec_allow_list. equal_ignoring_case ext allowed"
  then obtain allowed where a: "allowed \<in> set spec_allow_list"
    and e: "equal_ignoring_case ext allowed"
    by blast
  from e spec_allow_list_small [OF a] have "lower ext = allowed"
    by (rule lower_of_equal_ignoring_case)
  with a show "lower ext \<in> set spec_allow_list"
    by simp
qed

text \<open>
  C2. \<open>allowed_file\<close> returns true exactly for the filenames whose extension, compared
  without regard to case, is one of pdf, doc, docx, jpg, jpeg, png, txt; a filename
  with no extension or with any other extension is rejected.
\<close>

theorem allowed_file_iff_spec_validate:
  "allowed_file fname = spec_validate fname"
proof (cases "CHR ''.'' \<in> set fname")
  case False
  then have "\<not> allowed_file fname"
    by (simp add: allowed_file_def)
  moreover from False have "\<not> spec_validate fname"
    by (auto simp: spec_validate_def has_extension_def)
  ultimately show ?thesis
    by simp
next
  case True
  then obtain stem ext where
    s: "fname = stem @ ''.'' @ ext" and
    e: "CHR ''.'' \<notin> set ext" and
    r: "rsplit_dot fname = [stem, ext]"
    using rsplit_dot_decompose by blast
  have he: "has_extension fname ext"
    using s e by (auto simp: has_extension_def)
  have a: "allowed_file fname = (lower ext \<in> set spec_allow_list)"
    using True r by (simp add: allowed_file_def py_index_def spec_allow_list_keys)
  have "spec_validate fname =
      (\<exists>allowed \<in> set spec_allow_list. equal_ignoring_case ext allowed)"
    using he has_extension_unique unfolding spec_validate_def by blast
  with a lower_on_allow_list [of ext] show ?thesis
    by simp
qed

text \<open>
  Extensions in capitals and in mixed case are accepted; an extension off the list, a
  name without a dot and a name whose last extension is off the list are not.
\<close>

theorem allowed_file_iff_spec_validate_witness:
  "allowed_file ''Report.PDF'' \<and> spec_validate ''Report.PDF'' \<and>
   allowed_file ''scan.JpEg'' \<and> spec_validate ''scan.JpEg'' \<and>
   allowed_file ''notes.txt'' \<and> spec_validate ''notes.txt'' \<and>
   \<not> allowed_file ''malware.exe'' \<and> \<not> spec_validate ''malware.exe'' \<and>
   \<not> allowed_file ''README'' \<and> \<not> spec_validate ''README'' \<and>
   \<not> allowed_file ''notes.txt.bak'' \<and> \<not> spec_validate ''notes.txt.bak''"
proof -
  have yes: "allowed_file ''Report.PDF''" "allowed_file ''scan.JpEg''" "allowed_file ''notes.txt''"
    by (simp_all add: allowed_file_def rsplit_dot_def py_index_def lower_def lower_char_def
        ALLOWED_EXTENSIONS_def)
  have no: "\<not> allowed_file ''malware.exe''" "\<not> allowed_file ''README''"
    "\<not> allowed_file ''notes.txt.bak''"
    by (simp_all add: allowed_file_def rsplit_dot_def py_index_def lower_def lower_char_def
        ALLOWED_EXTENSIONS_def)
  from yes no
    allowed_file_iff_spec_validate [of "''Report.PDF''"]
    allowed_file_iff_spec_validate [of "''scan.JpEg''"]
    allowed_file_iff_spec_validate [of "''notes.txt''"]
    allowed_file_iff_spec_validate [of "''malware.exe''"]
    allowed_file_iff_spec_validate [of "''README''"]
    allowed_file_iff_spec_validate [of "''notes.txt.bak''"]
  show ?thesis
    by simp
qed

subsection \<open>Reading back what was written\<close>

text \<open>The block-wise loop feeds the hash object exactly the content of the file.\<close>

lemma hash_blocks_eq: "hash_blocks fed rest = fed @ rest"
proof (induction fed rest rule: hash_blocks.induct)
  case (1 fed rest)
  show ?case
  proof (cases "take 4096 rest = []")
    case True
    then have "rest = []" by (cases rest) auto
    then show ?thesis by (simp add: hash_blocks.simps [of fed "[]"])
  next
    case False
    with 1 have "hash_blocks (fed @ take 4096 rest) (drop 4096 rest) = (fed @ take 4096 rest) @ drop 4096 rest"
      by simp
    with False show ?thesis
      by (simp add: hash_blocks.simps [of fed rest])
  qed
qed

lemma entries_Some [simp]: "fs c = Some dir \<Longrightarrow> entries fs c = dir"
  by (simp add: entries_def)

lemma entries_None [simp]: "fs c = None \<Longrightarrow> entries fs c = []"
  by (simp add: entries_def)

lemma os_makedirs_ok:
  "fs c \<noteq> None \<or> makedirs_err orc = None \<Longrightarrow>
   os_makedirs orc fs c = Inr (fs(c \<mapsto> entries fs c))"
  by (auto simp: os_makedirs_def fun_eq_iff split: option.splits)

lemma os_makedirs_cases:
  assumes "os_makedirs orc fs c = Inr fs1"
  shows "(fs c \<noteq> None \<or> makedirs_err orc = None) \<and> fs1 = fs(c \<mapsto> entries fs c)"
proof (cases "fs c")
  case None
  with assms show ?thesis
    by (cases "makedirs_err orc") (auto simp: os_makedirs_def)
next
  case (Some dir)
  with assms have "fs1 = fs"
    by (simp add: os_makedirs_def)
  with Some show ?thesis
    by (auto simp: fun_eq_iff)
qed

lemma file_save_ok:
  assumes "fs1 c = Some dir" "map_of dir n \<noteq> Some Dir" "save_fault orc = SaveOK"
  shows "file_save orc fs1 f (c, n) = (None, fs1(c \<mapsto> AList.update n (File (stream f)) dir))"
  using assms by (simp add: file_save_def split: option.splits node.splits)

lemma file_save_cases:
  assumes "file_save orc fs1 f (c, n) = (None, fs2)"
  shows "\<exists>dir. fs1 c = Some dir \<and> map_of dir n \<noteq> Some Dir \<and> save_fault orc = SaveOK \<and>
           fs2 = fs1(c \<mapsto> AList.update n (File (stream f)) dir)"
  using assms
  by (auto simp: file_save_def split: option.splits node.splits save_fault.splits)

lemma read_back:
  "read_file (fs(c \<mapsto> AList.update n (File content) dir)) (c, n) = Inr content"
  by (simp add: read_file_def lookup_def update_conv')

lemma size_back:
  "get_file_size (fs(c \<mapsto> AList.update n (File content) dir)) (c, n) = Inr (length content)"
  by (simp add: get_file_size_def read_back)

lemma hash_back:
  "get_file_hash L (fs(c \<mapsto> AList.update n (File content) dir)) (c, n) = Inr (sha256_hexdigest L content)"
  by (simp add: get_file_hash_def read_back hash_blocks_eq)

lemma remove_back:
  "os_remove orc (fs(c \<mapsto> AList.update n (File content) dir)) (c, n) =
     (case remove_err orc of
        Some msg \<Rightarrow> Inl (OSError msg)
      | None \<Rightarrow> Inr (fs(c \<mapsto> AList.delete n dir)))"
  by (simp add: os_remove_def update_conv' delete_update_same split: option.splits)

subsection \<open>The paths through save\_uploaded\_file\<close>

text \<open>
  Once the filename is accepted and its sanitised form still has an extension, the
  function is the chain of its file operations; when the directory can be had and the
  stream is saved in full, its result is determined by the size of the stream. Every run
  takes one of six paths.
\<close>

lemma save_after_validation:
  assumes "filename f \<noteq> []" and "allowed_file (filename f)"
    and "py_index (rsplit_dot (secure_filename L (filename f))) 1 = Inr ext"
  shows "save_uploaded_file L orc fs (Some f) c u =
     (case os_makedirs orc fs c of
        Inl e \<Rightarrow> (Inl e, fs)
      | Inr fs1 \<Rightarrow>
          (case file_save orc fs1 f (c, stored_name (uuid4_str orc) (lower ext)) of
             (Some e, fs2) \<Rightarrow> (Inr (WriteFailure e), fs2)
           | (None, fs2) \<Rightarrow>
               (case get_file_size fs2 (c, stored_name (uuid4_str orc) (lower ext)) of
                  Inl e \<Rightarrow> (Inl e, fs2)
                | Inr size' \<Rightarrow>
                    (case get_file_hash L fs2 (c, stored_name (uuid4_str orc) (lower ext)) of
                       Inl e \<Rightarrow> (Inl e, fs2)
                     | Inr hash' \<Rightarrow>
                         if size' > MAX_FILE_SIZE then
                           (case os_remove orc fs2 (c, stored_name (uuid4_str orc) (lower ext)) of
                              Inl e \<Rightarrow> (Inl e, fs2)
                            | Inr fs3 \<Rightarrow> (Inr FileTooLarge, fs3))
                         else
                           (Inr (Success
                              \<lparr>document_id = uuid4_str orc,
                               original_filename = secure_filename L (filename f),
                               stored_filename = stored_name (uuid4_str orc) (lower ext),
                               file_path = (c, stored_name (uuid4_str orc) (lower ext)),
                               file_size = size',
                               file_hash = hash',
                               file_type = lower ext,
                               mime_type =
                                 py_or (guess_type L (secure_filename L (filename f)))
                                       (map_of ALLOWED_EXTENSIONS (lower ext)),
                               case_id = c,
                               uploaded_by = u,
                               uploaded_at = now_iso orc,
                               ocr_status = ''pending'',
                               tags = [],
                               version = 1\<rparr>), fs2)))))"
  unfolding save_uploaded_file_def Let_def using assms by simp

lemma save_stored:
  assumes "filename f \<noteq> []" and "allowed_file (filename f)"
    and "py_index (rsplit_dot (secure_filename L (filename f))) 1 = Inr ext"
    and "fs c \<noteq> None \<or> makedirs_err orc = None"
    and "map_of (entries fs c) (stored_name (uuid4_str orc) (lower ext)) \<noteq> Some Dir"
    and "save_fault orc = SaveOK"
  shows "save_uploaded_file L orc fs (Some f) c u =
     (if length (stream f) > MAX_FILE_SIZE then
        (case remove_err orc of
           Some msg \<Rightarrow>
             (Inl (OSError msg),
              fs(c \<mapsto> AList.update (stored_name (uuid4_str orc) (lower ext)) (File (stream f)) (entries fs c)))
         | None \<Rightarrow>
             (Inr FileTooLarge,
              fs(c \<mapsto> AList.delete (stored_name (uuid4_str orc) (lower ext)) (entries fs c))))
      else
        (Inr (Success
           \<lparr>document_id = uuid4_str orc,
            original_filename = secure_filename L (filename f),
            stored_filename = stored_name (uuid4_str orc) (lower ext),
            file_path = (c, stored_name (uuid4_str orc) (lower ext)),
            file_size = length (stream f),
            file_hash = sha256_hexdigest L (stream f),
            file_type = lower ext,
            mime_type =
              py_or (guess_type L (secure_filename L (filename f)))
                    (map_of ALLOWED_EXTENSIONS (lower ext)),
            case_id = c,
            uploaded_by = u,
            uploaded_at = now_iso orc,
            ocr_status = ''pending'',
            tags = [],
            version = 1\<rparr>),
         fs(c \<mapsto> AList.update (stored_name (uuid4_str orc) (lower ext)) (File (stream f)) (entries fs c))))"
proof -
  let ?n = "stored_name (uuid4_str orc) (lower ext)"
  let ?fs1 = "fs(c \<mapsto> entries fs c)"
  have mk: "os_makedirs orc fs c = Inr ?fs1"
    using assms(4) by (rule os_makedirs_ok)
  have sv: "file_save orc ?fs1 f (c, ?n) =
      (None, ?fs1(c \<mapsto> AList.update ?n (File (stream f)) (entries fs c)))"
    using assms(5,6) by (intro file_save_ok) simp_all
  show ?thesis
    by (simp add: save_after_validation [OF assms(1-3)] mk sv size_back hash_back remove_back
        split: option.splits)
qed

lemma save_cases:
  assumes run: "save_uploaded_file L orc fs file c u = (out, fs')"
  obtains
    (nofile) "\<not> truthy file" "out = Inr NoFile" "fs' = fs"
  | (unsupported) f where "file = Some f" "filename f \<noteq> []" "\<not> allowed_file (filename f)"
      "out = Inr UnsupportedType" "fs' = fs"
  | (index) f e where "file = Some f" "filename f \<noteq> []" "allowed_file (filename f)"
      "py_index (rsplit_dot (secure_filename L (filename f))) 1 = Inl e"
      "out = Inl e" "fs' = fs"
  | (mkdir) f ext msg where "file = Some f" "filename f \<noteq> []" "allowed_file (filename f)"
      "py_index (rsplit_dot (secure_filename L (filename f))) 1 = Inr ext"
      "fs c = None" "makedirs_err orc = Some msg" "out = Inl (OSError msg)" "fs' = fs"
  | (wfail) f ext e where "file = Some f" "filename f \<noteq> []" "allowed_file (filename f)"
      "py_index (rsplit_dot (secure_filename L (filename f))) 1 = Inr ext"
      "fs c \<noteq> None \<or> makedirs_err orc = None"
      "file_save orc (fs(c \<mapsto> entries fs c)) f (c, stored_name (uuid4_str orc) (lower ext))
         = (Some e, fs')"
      "out = Inr (WriteFailure e)"
  | (stored) f ext where "file = Some f" "filename f \<noteq> []" "allowed_file (filename f)"
      "py_index (rsplit_dot (secure_filename L (filename f))) 1 = Inr ext"
      "fs c \<noteq> None \<or> makedirs_err orc = None"
      "map_of (entries fs c) (stored_name (uuid4_str orc) (lower ext)) \<noteq> Some Dir"
      "save_fault orc = SaveOK"
proof (cases "file")
  case None
  with run have "out = Inr NoFile" "fs' = fs"
    by (simp_all add: save_uploaded_file_def)
  with None show ?thesis
    by (intro nofile) simp_all
next
  case (Some f)
  show ?thesis
  proof (cases "filename f = []")
    case True
    with run Some have "out = Inr NoFile" "fs' = fs"
      by (simp_all add: save_uploaded_file_def)
    with Some True show ?thesis
      by (intro nofile) simp_all
  next
    case named: False
    show ?thesis
    proof (cases "allowed_file (filename f)")
      case False
      with run Some named have "out = Inr UnsupportedType" "fs' = fs"
        by (simp_all add: save_uploaded_file_def)
      with Some named False show ?thesis
        by (intro unsupported)
    next
      case ok: True
      show ?thesis
      proof (cases "py_index (rsplit_dot (secure_filename L (filename f))) 1")
        case (Inl e)
        with run Some named ok have "out = Inl e" "fs' = fs"
          unfolding save_uploaded_file_def Let_def by simp_all
        with Some named ok Inl show ?thesis
          by (intro index)
      next
        case (Inr ext)
        let ?n = "stored_name (uuid4_str orc) (lower ext)"
        note eq = run [unfolded Some save_after_validation [OF named ok Inr]]
        show ?thesis
        proof (cases "os_makedirs orc fs c")
          case e: (Inl e)
          then obtain msg where "fs c = None" "makedirs_err orc = Some msg" "e = OSError msg"
            by (auto simp: os_makedirs_def split: option.splits)
          moreover from eq e have "out = Inl e" "fs' = fs"
            by simp_all
          ultimately show ?thesis
            using Some named ok Inr by (intro mkdir) simp_all
        next
          case mk: (Inr fs1)
          then have pre: "fs c \<noteq> None \<or> makedirs_err orc = None"
            and fs1: "fs1 = fs(c \<mapsto> entries fs c)"
            using os_makedirs_cases [of orc fs c fs1] by simp_all
          show ?thesis
          proof (cases "file_save orc fs1 f (c, ?n)")
            case (Pair r fs2)
            show ?thesis
            proof (cases r)
              case None
              with Pair obtain dir where "fs1 c = Some dir" "map_of dir ?n \<noteq> Some Dir"
                "save_fault orc = SaveOK"
                using file_save_cases by blast
              with fs1 have "map_of (entries fs c) ?n \<noteq> Some Dir"
                by simp
              with Some named ok Inr pre \<open>save_fault orc = SaveOK\<close> show ?thesis
                by (intro stored)
            next
              case e: (Some e)
              with eq mk Pair have "out = Inr (WriteFailure e)" "fs' = fs2"
                by simp_all
              with Some named ok Inr pre Pair e fs1 show ?thesis
                by (intro wfail) simp_all
            qed
          qed
        qed
      qed
    qed
  qed
qed

subsection \<open>Evaluation and messages\<close>

text \<open>The definitions that a concrete call unfolds.\<close>

lemmas eval_defs =
  save_uploaded_file_def Let_def allowed_file_def rsplit_dot_def py_index_def lower_def lower_char_def
  ALLOWED_EXTENSIONS_def posix_libs_def calm_def werkzeug_secure_filename_def strip_chars_def
  safe_chars_def py_whitespace_def stored_name_def os_makedirs_def file_save_def get_file_size_def
  get_file_hash_def read_file_def lookup_def hash_blocks_eq hex_digest_def hex_byte_def
  table_guess_type_def MAX_FILE_SIZE_def

lemma MAX_FILE_SIZE_bytes: "MAX_FILE_SIZE = 52428800"
  by (simp add: MAX_FILE_SIZE_def)

lemma FileTooLarge_message: "FileTooLarge = Failure ''File too large. Maximum size: 50.0MB''"
  by (simp add: FileTooLarge_def max_size_mb_def MAX_FILE_SIZE_def show_nat.simps)

lemma UnsupportedType_message:
  "UnsupportedType =
     Failure ''File type not allowed. Allowed types: pdf, doc, docx, jpg, jpeg, png, txt''"
  by (simp add: UnsupportedType_def ALLOWED_EXTENSIONS_def)

lemma path_exists_deleted:
  "\<not> path_exists (fs(c \<mapsto> AList.delete n dir)) (c, n)"
  by (simp add: path_exists_def lookup_def delete_conv')

subsection \<open>C1: size and hash of a successful upload\<close>

text \<open>
  C1. Whenever \<open>save_uploaded_file\<close> succeeds, the \<open>file_size\<close> of the returned
  metadata is the number of bytes of the input stream, and its \<open>file_hash\<close> is the
  digest of those same bytes computed in one piece: the hash depends on the bytes alone.
  The stored file holds the stream, and hashing it again gives the reported hash.
\<close>

theorem ingest_reports_size_and_hash:
  assumes "save_uploaded_file L orc fs (Some f) c u = (Inr (Success m), fs')"
  shows "file_size m = length (stream f) \<and>
         file_hash m = sha256_hexdigest L (stream f) \<and>
         read_file fs' (file_path m) = Inr (stream f) \<and>
         get_file_hash L fs' (file_path m) = Inr (file_hash m)"
  using assms
proof (cases rule: save_cases)
  case (stored g ext)
  then have "g = f"
    by simp
  from save_stored [OF stored(2-7)] assms stored(1)
  show ?thesis
    by (auto simp: FileTooLarge_def read_back hash_back split: if_splits option.splits)
qed (simp_all add: NoFile_def UnsupportedType_def WriteFailure_def)

text \<open>
  The scenario of the specification: \<open>notes.txt\<close> with ten bytes, uploaded to case
  \<open>SAML-00001\<close>, succeeds with extension \<open>txt\<close>, media type \<open>text/plain\<close> and size 10.
\<close>

theorem ingest_reports_size_and_hash_witness:
  "save_uploaded_file posix_libs (calm ''3f2b8c1e-7d4a-4e6b-9a1c-5d8e2f0b7a64'') Map.empty
      (Some \<lparr>filename = ''notes.txt'', stream = [72, 101, 108, 108, 111, 44, 32, 83, 65, 77]\<rparr>)
      ''SAML-00001'' ''Chris Hallberg''
   = (Inr (Success
        \<lparr>document_id = ''3f2b8c1e-7d4a-4e6b-9a1c-5d8e2f0b7a64'',
         original_filename = ''notes.txt'',
         stored_filename = ''3f2b8c1e-7d4a-4e6b-9a1c-5d8e2f0b7a64.txt'',
         file_path = (''SAML-00001'', ''3f2b8c1e-7d4a-4e6b-9a1c-5d8e2f0b7a64.txt''),
         file_size = 10,
         file_hash = ''48656c6c6f2c2053414d'',
         file_type = ''txt'',
         mime_type = Some ''text/plain'',
         case_id = ''SAML-00001'',
         uploaded_by = ''Chris Hallberg'',
         uploaded_at = ''2025-10-14T15:42:00'',
         ocr_status = ''pending'',
         tags = [],
         version = 1\<rparr>),
      [''SAML-00001'' \<mapsto>
         [(''3f2b8c1e-7d4a-4e6b-9a1c-5d8e2f0b7a64.txt'',
           File [72, 101, 108, 108, 111, 44, 32, 83, 65, 77])]])
   \<and> length [72, 101, 108, 108, 111, 44, 32, 83, 65, 77 :: 8 word] = 10
   \<and> sha256_hexdigest posix_libs [72, 101, 108, 108, 111, 44, 32, 83, 65, 77]
       = ''48656c6c6f2c2053414d''"
proof -
  have run: "save_uploaded_file posix_libs (calm ''3f2b8c1e-7d4a-4e6b-9a1c-5d8e2f0b7a64'') Map.empty
      (Some \<lparr>filename = ''notes.txt'', stream = [72, 101, 108, 108, 111, 44, 32, 83, 65, 77]\<rparr>)
      ''SAML-00001'' ''Chris Hallberg''
   = (Inr (Success
        \<lparr>document_id = ''3f2b8c1e-7d4a-4e6b-9a1c-5d8e2f0b7a64'',
         original_filename = ''notes.txt'',
         stored_filename = ''3f2b8c1e-7d4a-4e6b-9a1c-5d8e2f0b7a64.txt'',
         file_path = (''SAML-00001'', ''3f2b8c1e-7d4a-4e6b-9a1c-5d8e2f0b7a64.txt''),
         file_size = 10,
         file_hash = ''48656c6c6f2c2053414d'',
         file_type = ''txt'',
         mime_type = Some ''text/plain'',
         case_id = ''SAML-00001'',
         uploaded_by = ''Chris Hallberg'',
         uploaded_at = ''2025-10-14T15:42:00'',
         ocr_status = ''pending'',
         tags = [],
         version = 1\<rparr>),
      [''SAML-00001'' \<mapsto>
         [(''3f2b8c1e-7d4a-4e6b-9a1c-5d8e2f0b7a64.txt'',
           File [72, 101, 108, 108, 111, 44, 32, 83, 65, 77])]])"
    by (simp add: eval_defs)
  from ingest_reports_size_and_hash [OF run] run show ?thesis
    by simp
qed

subsection \<open>C3: the size limit\<close>

text \<open>
  C3. Whenever the upload is accepted, the stream is saved and the size of what was
  persisted exceeds \<open>MAX_FILE_SIZE\<close> (50 MiB, 52428800 bytes), the function removes the
  file it has just written and returns the failure whose message states the limit as
  \<open>50.0MB\<close>; afterwards the stored name does not exist, and the case directory holds
  what it held before, less any entry of that name. (That \<open>os.remove\<close> itself does not
  fail is assumed: the call is not guarded.)
\<close>

theorem oversize_upload_is_removed:
  assumes "truthy (Some f)" and "allowed_file (filename f)"
    and "py_index (rsplit_dot (secure_filename L (filename f))) 1 = Inr ext"
    and "target = (c, stored_name (uuid4_str orc) (lower ext))"
    and "os_makedirs orc fs c = Inr fs1"
    and "file_save orc fs1 f target = (None, fs2)"
    and "get_file_size fs2 target = Inr persisted"
    and "persisted > MAX_FILE_SIZE"
    and "remove_err orc = None"
  shows "\<exists>fs3. save_uploaded_file L orc fs (Some f) c u = (Inr FileTooLarge, fs3) \<and>
           os_remove orc fs2 target = Inr fs3 \<and>
           \<not> path_exists fs3 target \<and>
           fs3 = fs(c \<mapsto> AList.delete (snd target) (entries fs c)) \<and>
           FileTooLarge = Failure ''File too large. Maximum size: 50.0MB'' \<and>
           MAX_FILE_SIZE = 50 * 1024 * 1024"
proof -
  let ?n = "stored_name (uuid4_str orc) (lower ext)"
  from assms(5) have pre: "fs c \<noteq> None \<or> makedirs_err orc = None"
    and fs1: "fs1 = fs(c \<mapsto> entries fs c)"
    using os_makedirs_cases [of orc fs c fs1] by simp_all
  from assms(4,6) fs1 obtain dir where
    "fs1 c = Some dir" and nd: "map_of dir ?n \<noteq> Some Dir" and ok: "save_fault orc = SaveOK"
    and fs2: "fs2 = fs1(c \<mapsto> AList.update ?n (File (stream f)) dir)"
    using file_save_cases [of orc fs1 f c ?n fs2] by auto
  with fs1 have dir: "dir = entries fs c"
    by simp
  from assms(4,7) fs2 have "persisted = length (stream f)"
    by (simp add: size_back)
  with assms(8) have big: "length (stream f) > MAX_FILE_SIZE"
    by simp
  from assms(1) have named: "filename f \<noteq> []"
    by simp
  have run: "save_uploaded_file L orc fs (Some f) c u =
      (Inr FileTooLarge, fs(c \<mapsto> AList.delete ?n (entries fs c)))"
    using save_stored [OF named assms(2,3) pre nd [unfolded dir] ok, of u] big assms(9)
    by simp
  have rm: "os_remove orc fs2 target = Inr (fs(c \<mapsto> AList.delete ?n (entries fs c)))"
    using assms(4,9) fs2 fs1 dir by (simp add: remove_back)
  show ?thesis
    using run rm assms(4)
    by (simp add: path_exists_deleted FileTooLarge_message MAX_FILE_SIZE_def)
qed

text \<open>
  The scenario of the specification: a \<open>pdf\<close> of 60 MiB is refused, and the case
  directory, created for it, is left empty.
\<close>

theorem oversize_upload_is_removed_witness:
  "save_uploaded_file posix_libs (calm ''3f2b8c1e-7d4a-4e6b-9a1c-5d8e2f0b7a64'') Map.empty
      (Some \<lparr>filename = ''scan.pdf'', stream = replicate (60 * 1024 * 1024) 0\<rparr>)
      ''SAML-00001'' ''Chris Hallberg''
   = (Inr (Failure ''File too large. Maximum size: 50.0MB''), [''SAML-00001'' \<mapsto> []])
   \<and> list_uploaded_files [''SAML-00001'' \<mapsto> []] ''SAML-00001'' = []"
proof -
  let ?f = "\<lparr>filename = ''scan.pdf'', stream = replicate (60 * 1024 * 1024) (0 :: 8 word)\<rparr>"
  let ?orc = "calm ''3f2b8c1e-7d4a-4e6b-9a1c-5d8e2f0b7a64''"
  let ?t = "(''SAML-00001'', ''3f2b8c1e-7d4a-4e6b-9a1c-5d8e2f0b7a64.pdf'')"
  let ?fs1 = "[''SAML-00001'' \<mapsto> ([] :: directory)]"
  let ?fs2 = "?fs1(''SAML-00001'' \<mapsto>
                [(''3f2b8c1e-7d4a-4e6b-9a1c-5d8e2f0b7a64.pdf'', File (stream ?f))])"
  have h1: "truthy (Some ?f)" by simp
  have h2: "allowed_file (filename ?f)" by (simp add: eval_defs)
  have h3: "py_index (rsplit_dot (secure_filename posix_libs (filename ?f))) 1 = Inr ''pdf''"
    by (simp add: eval_defs)
  have h4: "?t = (''SAML-00001'', stored_name (uuid4_str ?orc) (lower ''pdf''))"
    by (simp add: eval_defs)
  have h5: "os_makedirs ?orc Map.empty ''SAML-00001'' = Inr ?fs1"
    by (simp add: eval_defs)
  have h6: "file_save ?orc ?fs1 ?f ?t = (None, ?fs2)"
    by (simp add: eval_defs)
  have h7: "get_file_size ?fs2 ?t = Inr (60 * 1024 * 1024)"
    by (simp add: eval_defs)
  have h8: "(60 * 1024 * 1024 :: nat) > MAX_FILE_SIZE"
    by (simp add: MAX_FILE_SIZE_def)
  have h9: "remove_err ?orc = None"
    by (simp add: calm_def)
  from oversize_upload_is_removed [OF h1 h2 h3 h4 h5 h6 h7 h8 h9, of "''Chris Hallberg''"]
  show ?thesis
    by (simp add: entries_def list_uploaded_files_def)
qed

subsection \<open>C4: a sanitised filename that loses its extension\<close>

text \<open>
  C4. The specification has \<open>save_uploaded_file\<close> always return a metadata record or
  one of its failure dictionaries, also for a filename whose sanitised form loses its
  extension. The code does not: the filename \<open>.pdf\<close> passes \<open>allowed_file\<close>, is
  sanitised to \<open>pdf\<close>, and the unguarded index \<open>rsplit('.', 1)[1]\<close> on the sanitised
  name raises \<open>IndexError\<close>, which nothing catches.
\<close>

theorem lost_extension_raises_index_error:
  "allowed_file ''.pdf'' \<and>
   secure_filename posix_libs ''.pdf'' = ''pdf'' \<and>
   save_uploaded_file posix_libs orc fs (Some \<lparr>filename = ''.pdf'', stream = content\<rparr>) c u
     = (Inl IndexError, fs)"
  by (simp add: save_uploaded_file_def Let_def allowed_file_def rsplit_dot_def py_index_def
      lower_def lower_char_def ALLOWED_EXTENSIONS_def posix_libs_def werkzeug_secure_filename_def
      strip_chars_def safe_chars_def py_whitespace_def)

subsection \<open>C6: the two rejections before anything is stored\<close>

text \<open>
  C6. A falsy file object (absent, or with an empty filename) is answered with
  \<open>No file provided\<close>, whatever else holds; a file object that is present and whose
  filename \<open>allowed_file\<close> rejects is answered with the message that enumerates exactly
  pdf, doc, docx, jpg, jpeg, png, txt. The file system is returned unchanged by both.
\<close>

theorem rejections_in_order:
  "(\<not> truthy file \<longrightarrow> save_uploaded_file L orc fs file c u = (Inr NoFile, fs)) \<and>
   (\<forall>f. file = Some f \<and> truthy file \<and> \<not> allowed_file (filename f) \<longrightarrow>
        save_uploaded_file L orc fs file c u = (Inr UnsupportedType, fs)) \<and>
   NoFile = Failure ''No file provided'' \<and>
   UnsupportedType =
     Failure ''File type not allowed. Allowed types: pdf, doc, docx, jpg, jpeg, png, txt''"
proof (intro conjI allI impI)
  assume "\<not> truthy file"
  then show "save_uploaded_file L orc fs file c u = (Inr NoFile, fs)"
    by (cases "file") (simp_all add: save_uploaded_file_def)
next
  fix f
  assume "file = Some f \<and> truthy file \<and> \<not> allowed_file (filename f)"
  then show "save_uploaded_file L orc fs file c u = (Inr UnsupportedType, fs)"
    by (auto simp: save_uploaded_file_def)
next
  show "NoFile = Failure ''No file provided''"
    by (simp add: NoFile_def)
next
  show "UnsupportedType =
     Failure ''File type not allowed. Allowed types: pdf, doc, docx, jpg, jpeg, png, txt''"
    by (rule UnsupportedType_message)
qed

text \<open>No file, a file object without a filename, and \<open>malware.exe\<close>.\<close>

theorem rejections_in_order_witness:
  "save_uploaded_file posix_libs (calm ''3f2b8c1e-7d4a-4e6b-9a1c-5d8e2f0b7a64'') Map.empty
      None ''SAML-00001'' ''Chris Hallberg''
     = (Inr (Failure ''No file provided''), Map.empty) \<and>
   save_uploaded_file posix_libs (calm ''3f2b8c1e-7d4a-4e6b-9a1c-5d8e2f0b7a64'') Map.empty
      (Some \<lparr>filename = [], stream = [1, 2, 3]\<rparr>) ''SAML-00001'' ''Chris Hallberg''
     = (Inr (Failure ''No file provided''), Map.empty) \<and>
   save_uploaded_file posix_libs (calm ''3f2b8c1e-7d4a-4e6b-9a1c-5d8e2f0b7a64'') Map.empty
      (Some \<lparr>filename = ''malware.exe'', stream = [77, 90]\<rparr>) ''SAML-00001'' ''Chris Hallberg''
     = (Inr (Failure ''File type not allowed. Allowed types: pdf, doc, docx, jpg, jpeg, png, txt''),
        Map.empty)"
proof -
  let ?orc = "calm ''3f2b8c1e-7d4a-4e6b-9a1c-5d8e2f0b7a64''"
  let ?empty = "\<lparr>filename = [], stream = [1, 2, 3 :: 8 word]\<rparr>"
  let ?exe = "\<lparr>filename = ''malware.exe'', stream = [77, 90 :: 8 word]\<rparr>"
  have bad: "\<not> allowed_file (filename ?exe)"
    by (simp add: eval_defs)
  note a = rejections_in_order [of None posix_libs ?orc Map.empty "''SAML-00001''" "''Chris Hallberg''"]
  note b = rejections_in_order [of "Some ?empty" posix_libs ?orc Map.empty "''SAML-00001''" "''Chris Hallberg''"]
  note c = rejections_in_order [of "Some ?exe" posix_libs ?orc Map.empty "''SAML-00001''" "''Chris Hallberg''"]
  from a b c bad show ?thesis
    by simp
qed

subsection \<open>What a successful run returns\<close>

lemma save_success_all:
  assumes "save_uploaded_file L orc fs (Some f) c u = (Inr (Success m), fs')"
  shows "document_id m = uuid4_str orc \<and>
         stored_filename m = stored_name (document_id m) (file_type m) \<and>
         file_path m = (c, stored_filename m) \<and>
         file_hash m = sha256_hexdigest L (stream f) \<and>
         file_size m = length (stream f) \<and>
         fs' = fs(c \<mapsto> AList.update (stored_filename m) (File (stream f)) (entries fs c))"
  using assms
proof (cases rule: save_cases)
  case (stored g ext)
  from save_stored [OF stored(2-7), of u] assms stored(1) show ?thesis
    by (auto simp: FileTooLarge_def split: if_splits option.splits)
qed (simp_all add: NoFile_def UnsupportedType_def WriteFailure_def)

lemma save_success:
  assumes "save_uploaded_file L orc fs (Some f) c u = (Inr (Success m), fs')"
  shows "document_id m = uuid4_str orc"
    and "stored_filename m = stored_name (document_id m) (file_type m)"
    and "file_path m = (c, stored_filename m)"
    and "file_hash m = sha256_hexdigest L (stream f)"
    and "file_size m = length (stream f)"
    and "fs' = fs(c \<mapsto> AList.update (stored_filename m) (File (stream f)) (entries fs c))"
  using save_success_all [OF assms] by blast+



subsection \<open>C5: stored names and overwriting\<close>

lemma lookup_update_other:
  "n' \<noteq> n \<Longrightarrow> lookup (fs(c \<mapsto> AList.update n v dir)) (c, n') = map_of dir n'"
  by (simp add: lookup_def update_conv')





subsection \<open>C7: get\_file\_path\<close>

text \<open>The scan returns the first name that begins with the identifier, if there is one.\<close>

lemma scan_None: "scan d names = None \<longleftrightarrow> (\<forall>n \<in> set names. \<not> prefix d n)"
  by (induction names) auto

lemma scan_Some:
  "scan d names = Some n \<Longrightarrow>
   \<exists>before after. names = before @ n # after \<and> prefix d n \<and> (\<forall>x \<in> set before. \<not> prefix d x)"
proof (induction names)
  case Nil
  then show ?case by simp
next
  case (Cons a names)
  show ?case
  proof (cases "prefix d a")
    case True
    with Cons.prems have "a = n" by simp
    with True have "a # names = [] @ n # names \<and> prefix d n \<and> (\<forall>x \<in> set []. \<not> prefix d x)"
      by simp
    then show ?thesis by blast
  next
    case False
    with Cons.prems have "scan d names = Some n" by simp
    from Cons.IH [OF this] obtain before after where
      "names = before @ n # after" "prefix d n" "\<forall>x \<in> set before. \<not> prefix d x"
      by blast
    with False have "a # names = (a # before) @ n # after \<and> prefix d n \<and>
        (\<forall>x \<in> set (a # before). \<not> prefix d x)"
      by simp
    then show ?thesis by blast
  qed
qed

lemma get_file_path_None:
  "get_file_path fs d c = None \<longleftrightarrow>
     fs c = None \<or> (\<forall>n \<in> set (map fst (entries fs c)). \<not> prefix d n)"
proof (cases "fs c")
  case None
  then show ?thesis by (simp add: get_file_path_def)
next
  case (Some dir)
  then show ?thesis
    using scan_None [of d "map fst dir"]
    by (auto simp: get_file_path_def split: option.splits)
qed

lemma get_file_path_Some:
  assumes "get_file_path fs d c = Some p"
  shows "fst p = c \<and> prefix d (snd p) \<and> path_exists fs p \<and>
         (\<exists>before after. map fst (entries fs c) = before @ snd p # after \<and>
            (\<forall>x \<in> set before. \<not> prefix d x))"
proof -
  from assms obtain dir n where dir: "fs c = Some dir" and sc: "scan d (map fst dir) = Some n"
    and p: "p = (c, n)"
    by (auto simp: get_file_path_def split: option.splits)
  from scan_Some [OF sc] obtain before after where
    sp: "map fst dir = before @ n # after" and pre: "prefix d n"
    and first: "\<forall>x \<in> set before. \<not> prefix d x"
    by blast
  from sp have "n \<in> set (map fst dir)"
    by simp
  then have "map_of dir n \<noteq> None"
    by (simp add: map_of_eq_None_iff)
  with dir p have "path_exists fs p"
    by (simp add: path_exists_def lookup_def)
  with dir p sp pre first show ?thesis
    by auto
qed

lemma prefix_stored_name: "prefix u (stored_name u e)"
  by (simp add: stored_name_def)

text \<open>
  C7. \<open>get_file_path\<close> returns none exactly when the case directory does not exist or
  no stored filename begins with the identifier; otherwise it returns the path of the
  first listed filename that begins with it, and that path exists. After a successful
  upload, looking up the returned \<open>document_id\<close> in the same case yields a path that
  exists.
\<close>

theorem locate_first_match:
  "(get_file_path fs d c = None \<longleftrightarrow>
      fs c = None \<or> (\<forall>n \<in> set (map fst (entries fs c)). \<not> prefix d n)) \<and>
   (\<forall>p. get_file_path fs d c = Some p \<longrightarrow>
      fst p = c \<and> prefix d (snd p) \<and> path_exists fs p \<and>
      (\<exists>before after. map fst (entries fs c) = before @ snd p # after \<and>
         (\<forall>x \<in> set before. \<not> prefix d x))) \<and>
   (\<forall>L orc fs0 f u m.
      save_uploaded_file L orc fs0 (Some f) c u = (Inr (Success m), fs) \<longrightarrow>
      (\<exists>p. get_file_path fs (document_id m) c = Some p \<and> path_exists fs p))"
proof (intro conjI allI impI)
  show "get_file_path fs d c = None \<longleftrightarrow>
      fs c = None \<or> (\<forall>n \<in> set (map fst (entries fs c)). \<not> prefix d n)"
    by (rule get_file_path_None)
next
  fix p
  assume "get_file_path fs d c = Some p"
  from get_file_path_Some [OF this]
  show "fst p = c" and "prefix d (snd p)" and "path_exists fs p"
    and "\<exists>before after. map fst (entries fs c) = before @ snd p # after \<and>
         (\<forall>x \<in> set before. \<not> prefix d x)"
    by blast+
next
  fix L orc fs0 f u m
  assume run: "save_uploaded_file L orc fs0 (Some f) c u = (Inr (Success m), fs)"
  note s = save_success [OF run]
  have dir: "fs c = Some (AList.update (stored_filename m) (File (stream f)) (entries fs0 c))"
    by (subst s(6)) simp
  then have "stored_filename m \<in> set (map fst (entries fs c))"
    by (simp add: entries_def dom_update)
  moreover have "prefix (document_id m) (stored_filename m)"
    by (subst s(2)) (rule prefix_stored_name)
  moreover from dir have "fs c \<noteq> None"
    by simp
  ultimately have "get_file_path fs (document_id m) c \<noteq> None"
    unfolding get_file_path_None by blast
  then obtain p where p: "get_file_path fs (document_id m) c = Some p"
    by blast
  with get_file_path_Some [OF p]
  show "\<exists>p. get_file_path fs (document_id m) c = Some p \<and> path_exists fs p"
    by blast
qed

text \<open>
  After the upload of \<open>notes.txt\<close>: its identifier is found, another identifier is
  not, and neither is anything in a case without a directory.
\<close>

theorem locate_first_match_witness:
  "save_uploaded_file posix_libs (calm ''3f2b8c1e-7d4a-4e6b-9a1c-5d8e2f0b7a64'') Map.empty
      (Some \<lparr>filename = ''notes.txt'', stream = [72, 105]\<rparr>) ''SAML-00001'' ''Chris Hallberg''
     = (Inr (Success
          \<lparr>document_id = ''3f2b8c1e-7d4a-4e6b-9a1c-5d8e2f0b7a64'',
           original_filename = ''notes.txt'',
           stored_filename = ''3f2b8c1e-7d4a-4e6b-9a1c-5d8e2f0b7a64.txt'',
           file_path = (''SAML-00001'', ''3f2b8c1e-7d4a-4e6b-9a1c-5d8e2f0b7a64.txt''),
           file_size = 2, file_hash = ''4869'', file_type = ''txt'',
           mime_type = Some ''text/plain'', case_id = ''SAML-00001'',
           uploaded_by = ''Chris Hallberg'', uploaded_at = ''2025-10-14T15:42:00'',
           ocr_status = ''pending'', tags = [], version = 1\<rparr>),
        [''SAML-00001'' \<mapsto> [(''3f2b8c1e-7d4a-4e6b-9a1c-5d8e2f0b7a64.txt'', File [72, 105])]]) \<and>
   get_file_path
      [''SAML-00001'' \<mapsto> [(''3f2b8c1e-7d4a-4e6b-9a1c-5d8e2f0b7a64.txt'', File [72, 105])]]
      ''3f2b8c1e-7d4a-4e6b-9a1c-5d8e2f0b7a64'' ''SAML-00001''
     = Some (''SAML-00001'', ''3f2b8c1e-7d4a-4e6b-9a1c-5d8e2f0b7a64.txt'') \<and>
   path_exists
      [''SAML-00001'' \<mapsto> [(''3f2b8c1e-7d4a-4e6b-9a1c-5d8e2f0b7a64.txt'', File [72, 105])]]
      (''SAML-00001'', ''3f2b8c1e-7d4a-4e6b-9a1c-5d8e2f0b7a64.txt'') \<and>
   get_file_path
      [''SAML-00001'' \<mapsto> [(''3f2b8c1e-7d4a-4e6b-9a1c-5d8e2f0b7a64.txt'', File [72, 105])]]
      ''9c0d1a52-6b3e-4f7a-8e21-0a4b6c8d2e13'' ''SAML-00001'' = None \<and>
   get_file_path
      [''SAML-00001'' \<mapsto> [(''3f2b8c1e-7d4a-4e6b-9a1c-5d8e2f0b7a64.txt'', File [72, 105])]]
      ''3f2b8c1e-7d4a-4e6b-9a1c-5d8e2f0b7a64'' ''SAML-00002'' = None"
proof -
  let ?f = "\<lparr>filename = ''notes.txt'', stream = [72, 105 :: 8 word]\<rparr>"
  let ?u = "''3f2b8c1e-7d4a-4e6b-9a1c-5d8e2f0b7a64''"
  let ?n = "''3f2b8c1e-7d4a-4e6b-9a1c-5d8e2f0b7a64.txt''"
  let ?m = "\<lparr>document_id = ?u, original_filename = ''notes.txt'',
      stored_filename = ?n, file_path = (''SAML-00001'', ?n), file_size = 2,
      file_hash = ''4869'', file_type = ''txt'', mime_type = Some ''text/plain'',
      case_id = ''SAML-00001'', uploaded_by = ''Chris Hallberg'',
      uploaded_at = ''2025-10-14T15:42:00'', ocr_status = ''pending'', tags = [],
      version = 1\<rparr>"
  let ?fs = "[''SAML-00001'' \<mapsto> [(?n, File [72, 105])]]"
  have run: "save_uploaded_file posix_libs (calm ?u) Map.empty (Some ?f)
      ''SAML-00001'' ''Chris Hallberg'' = (Inr (Success ?m), ?fs)"
    by (simp add: eval_defs)
  have found: "get_file_path ?fs ?u ''SAML-00001'' = Some (''SAML-00001'', ?n)"
    by (simp add: get_file_path_def)
  note known = locate_first_match [of ?fs ?u "''SAML-00001''"]
  note unknown = locate_first_match [of ?fs "''9c0d1a52-6b3e-4f7a-8e21-0a4b6c8d2e13''" "''SAML-00001''"]
  note nodir = locate_first_match [of ?fs ?u "''SAML-00002''"]
  from known found have "path_exists ?fs (''SAML-00001'', ?n)"
    by blast
  moreover from unknown
  have "get_file_path ?fs ''9c0d1a52-6b3e-4f7a-8e21-0a4b6c8d2e13'' ''SAML-00001'' = None"
    by (simp add: entries_def)
  moreover from nodir have "get_file_path ?fs ?u ''SAML-00002'' = None"
    by simp
  ultimately show ?thesis
    using run found by simp
qed

subsection \<open>C8: delete\_file\<close>

lemma os_remove_Inr:
  assumes "os_remove orc fs (c, n) = Inr fs'"
  shows "\<exists>dir. fs c = Some dir \<and> fs' = fs(c \<mapsto> AList.delete n dir)"
  using assms
  by (auto simp: os_remove_def split: option.splits node.splits)

text \<open>
  What \<open>delete_file\<close> does, for any identifier and any directory: the three answers,
  and when the lookup after a successful removal finds nothing.
\<close>

lemma delete_file_outcomes:
  "(get_file_path fs d c = None \<longrightarrow> delete_file orc fs d c = (NotFound, fs)) \<and>
   (\<forall>p e. get_file_path fs d c = Some p \<and> os_remove orc fs p = Inl e \<longrightarrow>
      delete_file orc fs d c = (DeleteFailure e, fs)) \<and>
   (\<forall>p fs'. get_file_path fs d c = Some p \<and> os_remove orc fs p = Inr fs' \<longrightarrow>
      delete_file orc fs d c = (Deleted ''File deleted'', fs') \<and>
      \<not> path_exists fs' p \<and>
      entries fs' c = AList.delete (snd p) (entries fs c) \<and>
      (get_file_path fs' d c = None \<longleftrightarrow>
         (\<forall>x \<in> set (map fst (entries fs c)). prefix d x \<longrightarrow> x = snd p)))"
proof (intro conjI allI impI)
  assume "get_file_path fs d c = None"
  then show "delete_file orc fs d c = (NotFound, fs)"
    by (simp add: delete_file_def)
next
  fix p e
  assume h: "get_file_path fs d c = Some p \<and> os_remove orc fs p = Inl e"
  with get_file_path_Some [of fs d c p] have "path_exists fs p"
    by blast
  with h show "delete_file orc fs d c = (DeleteFailure e, fs)"
    by (simp add: delete_file_def)
next
  fix p fs'
  assume h: "get_file_path fs d c = Some p \<and> os_remove orc fs p = Inr fs'"
  with get_file_path_Some [of fs d c p] have ex: "path_exists fs p" and p: "fst p = c"
    by blast+
  from ex h show "delete_file orc fs d c = (Deleted ''File deleted'', fs')"
    by (simp add: delete_file_def)
  from p have pp: "p = (c, snd p)"
    by (cases p) simp
  with h have "os_remove orc fs (c, snd p) = Inr fs'"
    by simp
  from os_remove_Inr [OF this] obtain dir where
    dir: "fs c = Some dir" and fs': "fs' = fs(c \<mapsto> AList.delete (snd p) dir)"
    by blast
  have "\<not> path_exists fs' (c, snd p)"
    unfolding fs' by (rule path_exists_deleted)
  with pp show "\<not> path_exists fs' p"
    by simp
  show "entries fs' c = AList.delete (snd p) (entries fs c)"
    using dir fs' by (simp add: entries_def)
  have "get_file_path fs' d c = None \<longleftrightarrow>
      (\<forall>x \<in> set (map fst (AList.delete (snd p) dir)). \<not> prefix d x)"
    unfolding get_file_path_None fs' by (simp add: entries_def)
  also have "\<dots> \<longleftrightarrow> (\<forall>x \<in> set (map fst dir). prefix d x \<longrightarrow> x = snd p)"
    by (auto simp: delete_keys)
  finally show "get_file_path fs' d c = None \<longleftrightarrow>
      (\<forall>x \<in> set (map fst (entries fs c)). prefix d x \<longrightarrow> x = snd p)"
    using dir by simp
qed

text \<open>
  In an issued directory an identifier of 36 characters is the beginning of at most one
  name; removing a name leaves the directory issued; and an upload that succeeds under
  an identifier of 36 characters which no stored name carries leaves it issued too.
\<close>

lemma prefix_identifier:
  assumes "prefix d name" and "length d = 36"
  shows "identifier_of name = d"
  using assms by (auto simp: identifier_of_def prefix_def)

lemma issued_one_name:
  assumes "issued dir" and "length d = 36"
    and "n \<in> set (map fst dir)" and "x \<in> set (map fst dir)"
    and "prefix d n" and "prefix d x"
  shows "x = n"
proof -
  from assms(1) have "distinct (map identifier_of (map fst dir))"
    by (simp add: issued_def)
  then have "inj_on identifier_of (set (map fst dir))"
    by (simp only: distinct_map)
  moreover from assms(2,5,6) have "identifier_of x = identifier_of n"
    by (simp add: prefix_identifier)
  ultimately show ?thesis
    using assms(4,3) by (rule inj_onD)
qed

lemma issued_delete:
  assumes "issued dir"
  shows "issued (AList.delete n dir)"
proof -
  have keys: "map fst (AList.delete n dir) = filter (\<lambda>x. n \<noteq> x) (map fst dir)"
    by (simp only: delete_keys removeAll_filter_not_eq)
  from assms have "list_all issued_name (filter (\<lambda>x. n \<noteq> x) (map fst dir))"
    by (auto simp: issued_def list_all_iff)
  moreover from assms have "distinct (map identifier_of (filter (\<lambda>x. n \<noteq> x) (map fst dir)))"
    unfolding issued_def by (intro distinct_map_filter) simp
  ultimately show ?thesis
    unfolding issued_def keys by simp
qed

lemma stored_name_issued:
  "length u = 36 \<Longrightarrow> issued_name (stored_name u e) \<and> identifier_of (stored_name u e) = u"
  by (simp add: issued_name_def identifier_of_def stored_name_def nth_append)

lemma issued_after_save:
  assumes run: "save_uploaded_file L orc fs (Some f) c u = (Inr (Success m), fs')"
    and "issued (entries fs c)" and "length (uuid4_str orc) = 36"
    and new: "uuid4_str orc \<notin> set (map identifier_of (map fst (entries fs c)))"
  shows "issued (entries fs' c) \<and> length (document_id m) = 36"
proof -
  note s = save_success [OF run]
  let ?n = "stored_filename m"
  from s(1,2) assms(3) have n: "issued_name ?n" "identifier_of ?n = uuid4_str orc"
    using stored_name_issued [of "uuid4_str orc" "file_type m"] by simp_all
  have fresh: "?n \<notin> set (map fst (entries fs c))"
  proof
    assume "?n \<in> set (map fst (entries fs c))"
    then have "identifier_of ?n \<in> identifier_of ` set (map fst (entries fs c))"
      by (rule imageI)
    with new n(2) show False
      by (auto simp: image_image)
  qed
  have e: "entries fs' c = AList.update ?n (File (stream f)) (entries fs c)"
    by (subst s(6)) (simp add: entries_def)
  from fresh have keys: "map fst (entries fs' c) = map fst (entries fs c) @ [?n]"
    unfolding e by (simp add: update_keys)
  from assms(2) n new have "issued (entries fs' c)"
    unfolding issued_def keys by simp
  with s(1) assms(3) show ?thesis
    by simp
qed

text \<open>
  C8. \<open>delete_file\<close> resolves the path with \<open>get_file_path\<close>. When there is no case
  directory or no stored filename begins with the identifier, it answers
  \<open>File not found\<close> and changes nothing. Otherwise it removes the file found: an error
  of the removal is answered with \<open>Failed to delete file:\<close> and the error's text, the
  file system unchanged; after a successful removal the path no longer exists, and, the
  identifier being one of 36 characters in a directory of issued names, a lookup of the
  same identifier returns none.
\<close>

theorem delete_then_locate:
  "(fs c = None \<or> (\<forall>n \<in> set (map fst (entries fs c)). \<not> prefix d n) \<longrightarrow>
      delete_file orc fs d c = (NotFound, fs)) \<and>
   (\<forall>p e. get_file_path fs d c = Some p \<and> os_remove orc fs p = Inl e \<longrightarrow>
      delete_file orc fs d c = (DeleteFailure e, fs)) \<and>
   (\<forall>p fs'. get_file_path fs d c = Some p \<and> os_remove orc fs p = Inr fs' \<longrightarrow>
      delete_file orc fs d c = (Deleted ''File deleted'', fs') \<and>
      \<not> path_exists fs' p \<and>
      (issued (entries fs c) \<and> length d = 36 \<longrightarrow>
         get_file_path fs' d c = None \<and> issued (entries fs' c))) \<and>
   NotFound = NotDeleted ''File not found'' \<and>
   (\<forall>e. DeleteFailure e = NotDeleted (''Failed to delete file: '' @ str_exn e))"
proof (intro conjI allI impI)
  assume "fs c = None \<or> (\<forall>n \<in> set (map fst (entries fs c)). \<not> prefix d n)"
  then have "get_file_path fs d c = None"
    by (simp only: get_file_path_None)
  with delete_file_outcomes [of fs d c orc] show "delete_file orc fs d c = (NotFound, fs)"
    by blast
next
  fix p e
  assume "get_file_path fs d c = Some p \<and> os_remove orc fs p = Inl e"
  with delete_file_outcomes [of fs d c orc] show "delete_file orc fs d c = (DeleteFailure e, fs)"
    by blast
next
  fix p fs'
  assume h: "get_file_path fs d c = Some p \<and> os_remove orc fs p = Inr fs'"
  note o = delete_file_outcomes [of fs d c orc]
  from o h show "delete_file orc fs d c = (Deleted ''File deleted'', fs')"
    by blast
  from o h show "\<not> path_exists fs' p"
    by blast
  from o h have ent: "entries fs' c = AList.delete (snd p) (entries fs c)"
    and none: "get_file_path fs' d c = None \<longleftrightarrow>
         (\<forall>x \<in> set (map fst (entries fs c)). prefix d x \<longrightarrow> x = snd p)"
    by blast+
  assume shape: "issued (entries fs c) \<and> length d = 36"
  from h get_file_path_Some [of fs d c p] obtain before after where
    "map fst (entries fs c) = before @ snd p # after" and pre: "prefix d (snd p)"
    by blast
  then have mem: "snd p \<in> set (map fst (entries fs c))"
    by simp
  have "\<forall>x \<in> set (map fst (entries fs c)). prefix d x \<longrightarrow> x = snd p"
    using issued_one_name [of "entries fs c" d "snd p"] shape mem pre by blast
  with none show "get_file_path fs' d c = None"
    by simp
  from shape show "issued (entries fs' c)"
    unfolding ent by (simp add: issued_delete)
next
  show "NotFound = NotDeleted ''File not found''"
    by (simp add: NotFound_def)
next
  fix e
  show "DeleteFailure e = NotDeleted (''Failed to delete file: '' @ str_exn e)"
    by (simp add: DeleteFailure_def)
qed

text \<open>
  A case directory with two uploads: an unknown identifier, a removal that is refused,
  and a removal that succeeds, after which the identifier is no longer found and the
  other upload still is.
\<close>

theorem delete_then_locate_witness:
  "issued [(''3f2b8c1e-7d4a-4e6b-9a1c-5d8e2f0b7a64.txt'', File [72, 105]),
           (''9c0d1a52-6b3e-4f7a-8e21-0a4b6c8d2e13.pdf'', File [37, 80])] \<and>
   delete_file (calm [])
      [''SAML-00001'' \<mapsto>
         [(''3f2b8c1e-7d4a-4e6b-9a1c-5d8e2f0b7a64.txt'', File [72, 105]),
          (''9c0d1a52-6b3e-4f7a-8e21-0a4b6c8d2e13.pdf'', File [37, 80])]]
      ''5e7a9b31-2c4d-4f60-8a1b-3c5d7e9f0a2b'' ''SAML-00001''
     = (NotDeleted ''File not found'',
        [''SAML-00001'' \<mapsto>
           [(''3f2b8c1e-7d4a-4e6b-9a1c-5d8e2f0b7a64.txt'', File [72, 105]),
            (''9c0d1a52-6b3e-4f7a-8e21-0a4b6c8d2e13.pdf'', File [37, 80])]]) \<and>
   delete_file ((calm []) \<lparr>remove_err := Some ''[Errno 13] Permission denied''\<rparr>)
      [''SAML-00001'' \<mapsto>
         [(''3f2b8c1e-7d4a-4e6b-9a1c-5d8e2f0b7a64.txt'', File [72, 105]),
          (''9c0d1a52-6b3e-4f7a-8e21-0a4b6c8d2e13.pdf'', File [37, 80])]]
      ''3f2b8c1e-7d4a-4e6b-9a1c-5d8e2f0b7a64'' ''SAML-00001''
     = (NotDeleted ''Failed to delete file: [Errno 13] Permission denied'',
        [''SAML-00001'' \<mapsto>
           [(''3f2b8c1e-7d4a-4e6b-9a1c-5d8e2f0b7a64.txt'', File [72, 105]),
            (''9c0d1a52-6b3e-4f7a-8e21-0a4b6c8d2e13.pdf'', File [37, 80])]]) \<and>
   delete_file (calm [])
      [''SAML-00001'' \<mapsto>
         [(''3f2b8c1e-7d4a-4e6b-9a1c-5d8e2f0b7a64.txt'', File [72, 105]),
          (''9c0d1a52-6b3e-4f7a-8e21-0a4b6c8d2e13.pdf'', File [37, 80])]]
      ''3f2b8c1e-7d4a-4e6b-9a1c-5d8e2f0b7a64'' ''SAML-00001''
     = (Deleted ''File deleted'',
        [''SAML-00001'' \<mapsto> [(''9c0d1a52-6b3e-4f7a-8e21-0a4b6c8d2e13.pdf'', File [37, 80])]]) \<and>
   get_file_path
      [''SAML-00001'' \<mapsto> [(''9c0d1a52-6b3e-4f7a-8e21-0a4b6c8d2e13.pdf'', File [37, 80])]]
      ''3f2b8c1e-7d4a-4e6b-9a1c-5d8e2f0b7a64'' ''SAML-00001'' = None \<and>
   get_file_path
      [''SAML-00001'' \<mapsto> [(''9c0d1a52-6b3e-4f7a-8e21-0a4b6c8d2e13.pdf'', File [37, 80])]]
      ''9c0d1a52-6b3e-4f7a-8e21-0a4b6c8d2e13'' ''SAML-00001''
     = Some (''SAML-00001'', ''9c0d1a52-6b3e-4f7a-8e21-0a4b6c8d2e13.pdf'')"
proof -
  let ?u = "''3f2b8c1e-7d4a-4e6b-9a1c-5d8e2f0b7a64''"
  let ?n = "''3f2b8c1e-7d4a-4e6b-9a1c-5d8e2f0b7a64.txt''"
  let ?u2 = "''9c0d1a52-6b3e-4f7a-8e21-0a4b6c8d2e13''"
  let ?n2 = "''9c0d1a52-6b3e-4f7a-8e21-0a4b6c8d2e13.pdf''"
  let ?x = "''5e7a9b31-2c4d-4f60-8a1b-3c5d7e9f0a2b''"
  let ?c = "''SAML-00001''"
  let ?dir = "[(?n, File [72, 105]), (?n2, File [37, 80])]"
  let ?fs = "[?c \<mapsto> ?dir]"
  let ?fs' = "?fs(?c \<mapsto> [(?n2, File [37, 80])])"
  let ?denied = "(calm []) \<lparr>remove_err := Some ''[Errno 13] Permission denied''\<rparr>"
  have shape: "issued ?dir"
    by (simp add: issued_def issued_name_def identifier_of_def)
  then have shape': "issued (entries ?fs ?c) \<and> length ?u = 36"
    by (simp add: entries_def)
  have found: "get_file_path ?fs ?u ?c = Some (?c, ?n)"
    by (simp add: get_file_path_def)
  have removed: "os_remove (calm []) ?fs (?c, ?n) = Inr ?fs'"
    by (simp add: os_remove_def calm_def)
  have refused: "os_remove ?denied ?fs (?c, ?n) = Inl (OSError ''[Errno 13] Permission denied'')"
    by (simp add: os_remove_def calm_def)
  have other: "get_file_path ?fs' ?u2 ?c = Some (?c, ?n2)"
    by (simp add: get_file_path_def)
  note a = delete_then_locate [of ?fs ?c ?x "calm []"]
  note b = delete_then_locate [of ?fs ?c ?u ?denied]
  note c = delete_then_locate [of ?fs ?c ?u "calm []"]
  from a have 1: "delete_file (calm []) ?fs ?x ?c = (NotDeleted ''File not found'', ?fs)"
    by (simp add: entries_def)
  from b found refused have 2: "delete_file ?denied ?fs ?u ?c
      = (NotDeleted ''Failed to delete file: [Errno 13] Permission denied'', ?fs)"
    by simp
  from c found removed have 3: "delete_file (calm []) ?fs ?u ?c = (Deleted ''File deleted'', ?fs')"
    by blast
  from c found removed shape' have 4: "get_file_path ?fs' ?u ?c = None"
    by blast
  from shape 1 2 3 4 other show ?thesis
    by simp
qed

subsection \<open>C9: a save that fails\<close>

text \<open>
  When the save fails after the destination was opened, the function answers with
  \<open>Failed to save file:\<close> and the error's text, and the file holding what was written
  so far stays in the case directory: this path has no \<open>os.remove\<close>, unlike the path
  of the size check.
\<close>

lemma partial_file_stays:
  assumes "filename f \<noteq> []" and "allowed_file (filename f)"
    and "py_index (rsplit_dot (secure_filename L (filename f))) 1 = Inr ext"
    and "fs c \<noteq> None \<or> makedirs_err orc = None"
    and "map_of (entries fs c) (stored_name (uuid4_str orc) (lower ext)) \<noteq> Some Dir"
    and "save_fault orc = SaveFails msg (Some k)"
  shows "save_uploaded_file L orc fs (Some f) c u =
     (Inr (WriteFailure (OSError msg)),
      fs(c \<mapsto> AList.update (stored_name (uuid4_str orc) (lower ext))
                 (File (take k (stream f))) (entries fs c)))"
proof -
  let ?n = "stored_name (uuid4_str orc) (lower ext)"
  let ?fs1 = "fs(c \<mapsto> entries fs c)"
  have mk: "os_makedirs orc fs c = Inr ?fs1"
    using assms(4) by (rule os_makedirs_ok)
  have sv: "file_save orc ?fs1 f (c, ?n) =
      (Some (OSError msg), ?fs1(c \<mapsto> AList.update ?n (File (take k (stream f))) (entries fs c)))"
    using assms(5,6) by (simp add: file_save_def split: option.splits node.splits)
  show ?thesis
    by (simp add: save_after_validation [OF assms(1-3)] mk sv)
qed

text \<open>
  C9. The specification has a failed save answered with the write failure wrapping its
  cause, and has no partial file left to mislead later readers of the case
  directory. The first half holds; the second does not. Here the disk is full after four
  of ten bytes: the answer is the write failure, and afterwards the case directory lists
  a file of four bytes under the generated name, which a lookup of the identifier finds.
\<close>

theorem failed_save_leaves_partial_file:
  "save_uploaded_file posix_libs
      ((calm ''3f2b8c1e-7d4a-4e6b-9a1c-5d8e2f0b7a64'')
         \<lparr>save_fault := SaveFails ''[Errno 28] No space left on device'' (Some 4)\<rparr>)
      Map.empty
      (Some \<lparr>filename = ''notes.txt'', stream = [72, 101, 108, 108, 111, 44, 32, 83, 65, 77]\<rparr>)
      ''SAML-00001'' ''Chris Hallberg''
     = (Inr (Failure ''Failed to save file: [Errno 28] No space left on device''),
        [''SAML-00001'' \<mapsto>
           [(''3f2b8c1e-7d4a-4e6b-9a1c-5d8e2f0b7a64.txt'', File [72, 101, 108, 108])]]) \<and>
   list_uploaded_files
      [''SAML-00001'' \<mapsto>
         [(''3f2b8c1e-7d4a-4e6b-9a1c-5d8e2f0b7a64.txt'', File [72, 101, 108, 108])]]
      ''SAML-00001''
     = [\<lparr>entry_name = ''3f2b8c1e-7d4a-4e6b-9a1c-5d8e2f0b7a64.txt'',
         entry_path = (''SAML-00001'', ''3f2b8c1e-7d4a-4e6b-9a1c-5d8e2f0b7a64.txt''),
         entry_size = 4\<rparr>] \<and>
   get_file_path
      [''SAML-00001'' \<mapsto>
         [(''3f2b8c1e-7d4a-4e6b-9a1c-5d8e2f0b7a64.txt'', File [72, 101, 108, 108])]]
      ''3f2b8c1e-7d4a-4e6b-9a1c-5d8e2f0b7a64'' ''SAML-00001''
     = Some (''SAML-00001'', ''3f2b8c1e-7d4a-4e6b-9a1c-5d8e2f0b7a64.txt'')"
  by (simp add: eval_defs WriteFailure_def list_uploaded_files_def get_file_path_def)

subsection \<open>C10: what the rejections leave behind\<close>

lemma failure_messages_differ:
  "WriteFailure e \<noteq> NoFile" "WriteFailure e \<noteq> UnsupportedType"
  "FileTooLarge \<noteq> NoFile" "FileTooLarge \<noteq> UnsupportedType"
  by (simp_all add: WriteFailure_def NoFile_def UnsupportedType_message FileTooLarge_message)

text \<open>
  C10. When \<open>save_uploaded_file\<close> answers \<open>No file provided\<close> or
  \<open>File type not allowed\<close>, the file system is exactly what it was: both answers are
  given before the directory is created and before anything is written. A failure
  dictionary that comes with a changed file system is the one of the size limit or the
  one of a failed save, and only these two outcomes leave behind a case directory that
  was newly created and is empty.
\<close>

theorem early_rejections_change_nothing:
  assumes run: "save_uploaded_file L orc fs file c u = (out, fs')"
  shows "(out = Inr NoFile \<or> out = Inr UnsupportedType \<longrightarrow> fs' = fs) \<and>
         (\<forall>msg. out = Inr (Failure msg) \<and> fs' \<noteq> fs \<longrightarrow>
            out = Inr FileTooLarge \<or> (\<exists>e. out = Inr (WriteFailure e))) \<and>
         (fs c = None \<and> fs' c = Some [] \<longrightarrow>
            out = Inr FileTooLarge \<or> (\<exists>e. out = Inr (WriteFailure e)))"
  using run
proof (cases rule: save_cases)
  case nofile
  then show ?thesis by auto
next
  case (unsupported f)
  then show ?thesis by auto
next
  case (index f e)
  then show ?thesis by auto
next
  case (mkdir f ext msg)
  then show ?thesis by auto
next
  case (wfail f ext e)
  then have "out \<noteq> Inr NoFile" and "out \<noteq> Inr UnsupportedType"
    by (simp_all add: failure_messages_differ)
  moreover from wfail(7) have "\<exists>e'. out = Inr (WriteFailure e')"
    by blast
  ultimately show ?thesis
    by blast
next
  case (stored f ext)
  note eq = save_stored [OF stored(2-7), of u]
  show ?thesis
  proof (cases "MAX_FILE_SIZE < length (stream f)")
    case False
    with eq run stored(1) have "\<exists>m. out = Inr (Success m)" and
      "fs' c = Some (AList.update (stored_name (uuid4_str orc) (lower ext)) (File (stream f))
          (entries fs c))"
      by auto
    then show ?thesis
      by (auto simp: NoFile_def UnsupportedType_def)
  next
    case True
    show ?thesis
    proof (cases "remove_err orc")
      case None
      with True eq run stored(1) have "out = Inr FileTooLarge"
        by simp
      then have "out = Inr FileTooLarge"
        and "out \<noteq> Inr NoFile" and "out \<noteq> Inr UnsupportedType"
        by (simp_all add: failure_messages_differ)
      then show ?thesis
        by blast
    next
      case (Some msg)
      with True eq run stored(1) have "out = Inl (OSError msg)" and
        "fs' c = Some (AList.update (stored_name (uuid4_str orc) (lower ext)) (File (stream f))
            (entries fs c))"
        by auto
      then show ?thesis
        by simp
    qed
  qed
qed

text \<open>
  No file and \<open>malware.exe\<close> leave the empty upload folder empty; a save that cannot
  open its destination leaves the new, empty case directory.
\<close>

theorem early_rejections_change_nothing_witness:
  "save_uploaded_file posix_libs (calm ''3f2b8c1e-7d4a-4e6b-9a1c-5d8e2f0b7a64'') Map.empty
      None ''SAML-00001'' ''Chris Hallberg''
     = (Inr NoFile, Map.empty) \<and>
   save_uploaded_file posix_libs (calm ''3f2b8c1e-7d4a-4e6b-9a1c-5d8e2f0b7a64'') Map.empty
      (Some \<lparr>filename = ''malware.exe'', stream = [77, 90]\<rparr>) ''SAML-00001'' ''Chris Hallberg''
     = (Inr UnsupportedType, Map.empty) \<and>
   save_uploaded_file posix_libs
      ((calm ''3f2b8c1e-7d4a-4e6b-9a1c-5d8e2f0b7a64'')
         \<lparr>save_fault := SaveFails ''[Errno 13] Permission denied'' None\<rparr>)
      Map.empty
      (Some \<lparr>filename = ''notes.txt'', stream = [72, 105]\<rparr>) ''SAML-00001'' ''Chris Hallberg''
     = (Inr (WriteFailure (OSError ''[Errno 13] Permission denied'')),
        [''SAML-00001'' \<mapsto> []]) \<and>
   [''SAML-00001'' \<mapsto> ([] :: directory)] \<noteq> Map.empty"
proof -
  let ?orc = "calm ''3f2b8c1e-7d4a-4e6b-9a1c-5d8e2f0b7a64''"
  let ?denied = "?orc \<lparr>save_fault := SaveFails ''[Errno 13] Permission denied'' None\<rparr>"
  let ?exe = "\<lparr>filename = ''malware.exe'', stream = [77, 90 :: 8 word]\<rparr>"
  let ?txt = "\<lparr>filename = ''notes.txt'', stream = [72, 105 :: 8 word]\<rparr>"
  obtain out1 fs1 where run1: "save_uploaded_file posix_libs ?orc Map.empty None
      ''SAML-00001'' ''Chris Hallberg'' = (out1, fs1)"
    by (cases "save_uploaded_file posix_libs ?orc Map.empty None
      ''SAML-00001'' ''Chris Hallberg''") blast
  obtain out2 fs2 where run2: "save_uploaded_file posix_libs ?orc Map.empty (Some ?exe)
      ''SAML-00001'' ''Chris Hallberg'' = (out2, fs2)"
    by (cases "save_uploaded_file posix_libs ?orc Map.empty (Some ?exe)
      ''SAML-00001'' ''Chris Hallberg''") blast
  have o1: "out1 = Inr NoFile"
    using run1 by (simp add: save_uploaded_file_def)
  have o2: "out2 = Inr UnsupportedType"
    using run2 by (auto simp: eval_defs)
  from early_rejections_change_nothing [OF run1] o1 have "fs1 = Map.empty"
    by blast
  moreover from early_rejections_change_nothing [OF run2] o2 have "fs2 = Map.empty"
    by blast
  moreover have "save_uploaded_file posix_libs ?denied Map.empty (Some ?txt)
      ''SAML-00001'' ''Chris Hallberg''
     = (Inr (WriteFailure (OSError ''[Errno 13] Permission denied'')), [''SAML-00001'' \<mapsto> []])"
    by (simp add: eval_defs)
  moreover have "[''SAML-00001'' \<mapsto> ([] :: directory)] \<noteq> Map.empty"
    by (simp add: fun_eq_iff)
  ultimately show ?thesis
    using run1 run2 o1 o2 by simp
qed

end
